theory Spec2Isabelle
  imports Complex_Main "HOL-Library.AList" "HOL-Library.Multiset"
begin

section \<open>JavaScript values used by the update manager\<close>

text \<open>
  A value that the source types as \<open>string\<close> or \<open>string | null\<close> but that can be
  \<open>undefined\<close> at run time (\<open>xs[0]\<close> on an empty array, \<open>Array.find\<close> without a hit).
\<close>

datatype js_string = Undefined | Null | Str string

text \<open>\<open>a ?? b\<close>: the right operand only when the left one is \<open>null\<close> or \<open>undefined\<close>.\<close>

fun nullish :: "js_string \<Rightarrow> js_string \<Rightarrow> js_string" where
  "nullish Undefined b = b"
| "nullish Null b = b"
| "nullish (Str s) b = Str s"

text \<open>Truthiness of such a value: \<open>undefined\<close>, \<open>null\<close> and the empty string are falsy.\<close>

fun truthy :: "js_string \<Rightarrow> bool" where
  "truthy (Str s) = (s \<noteq> [])"
| "truthy _ = False"

text \<open>\<open>xs[0]\<close> on an array of strings.\<close>

fun first_elem :: "string list \<Rightarrow> js_string" where
  "first_elem [] = Undefined"
| "first_elem (x # xs) = Str x"

text \<open>\<open>xs.find(d => d === v)\<close>: the first element strictly equal to \<open>v\<close>, else \<open>undefined\<close>.\<close>

fun find_equal :: "string list \<Rightarrow> js_string \<Rightarrow> js_string" where
  "find_equal [] v = Undefined"
| "find_equal (d # ds) v = (if Str d = v then Str d else find_equal ds v)"

section \<open>Rename tie-break: \<open>getNewName\<close>\<close>

definition inFileDeclaration :: "string list \<Rightarrow> string list \<Rightarrow> js_string \<Rightarrow> js_string" where
  "inFileDeclaration topLevelDeclarations indexExports oldName =
     (let inIndexExport = first_elem indexExports;
          matchingDeclaration = find_equal topLevelDeclarations inIndexExport;
          oldDeclaration = find_equal topLevelDeclarations oldName
      in nullish (nullish matchingDeclaration oldDeclaration) (first_elem topLevelDeclarations))"

definition getNewName :: "string list \<Rightarrow> string list \<Rightarrow> js_string \<Rightarrow> js_string" where
  "getNewName topLevelDeclarations indexExports oldName =
     (let inIndexExport = first_elem indexExports;
          inFileDecl = inFileDeclaration topLevelDeclarations indexExports oldName
      in if inIndexExport = inFileDecl \<and> inIndexExport = oldName then Null
         else if inIndexExport = inFileDecl \<and> inIndexExport \<noteq> oldName then inFileDecl
         else if inIndexExport = oldName \<and> inFileDecl \<noteq> oldName then inFileDecl
         else if inIndexExport \<noteq> inFileDecl \<and> inIndexExport \<noteq> oldName then Null
         else Null)"

section \<open>Function diff: \<open>functionChange\<close>\<close>

text \<open>
  \<open>parseTopLevelFunctions\<close> and \<open>functionSimilarity\<close> live in modules that are not part
  of the sources at hand; they are parameters. A parsed function has a name and a body,
  a similarity is a number or \<open>null\<close> (\<open>None\<close>); the numbers are compared with \<open>>\<close>
  only, so any linear order stands for them.
\<close>

record FunctionInfo =
  name :: string
  content :: string

record RenamedFunction =
  old_function_name :: string
  new_function_name :: string
  renamed_by_symbol :: bool

record FunctionChange =
  functions_to_rename :: "RenamedFunction list"
  functions_to_delete :: "string list"
  functions_to_add :: "string list"

text \<open>
  The \<open>similarities.forEach\<close> callback, run from position \<open>index\<close> on, on the pair
  \<open>(maxSimilarity, maxSimilarityIndex)\<close>.
\<close>

fun forEach_max ::
  "'s::linorder option list \<Rightarrow> nat \<Rightarrow> 's option \<times> nat option \<Rightarrow> 's option \<times> nat option" where
  "forEach_max [] index acc = acc"
| "forEach_max (s # ss) index (maxSimilarity, maxSimilarityIndex) =
     forEach_max ss (Suc index)
       (case s of
          None \<Rightarrow> (maxSimilarity, maxSimilarityIndex)
        | Some v \<Rightarrow>
            (case maxSimilarity of
               None \<Rightarrow> (Some v, Some index)
             | Some m \<Rightarrow> if v > m then (Some v, Some index)
                         else (maxSimilarity, maxSimilarityIndex)))"

text \<open>\<open>xs.splice(i, 1)\<close>: the array without position \<open>i\<close>.\<close>

definition splice1 :: "nat \<Rightarrow> 'a list \<Rightarrow> 'a list" where
  "splice1 i xs = take i xs @ drop (Suc i) xs"

text \<open>
  The \<open>for (const deletedFunction of deletedFunctions)\<close> loop, on the mutable
  \<open>addedFunctions\<close> and \<open>renamedFunctions\<close>.
\<close>

fun rename_loop ::
  "(string \<Rightarrow> string \<Rightarrow> 's::linorder option) \<Rightarrow> FunctionInfo list \<Rightarrow> FunctionInfo list
     \<Rightarrow> RenamedFunction list \<Rightarrow> FunctionInfo list \<times> RenamedFunction list" where
  "rename_loop functionSimilarity [] addedFunctions renamedFunctions =
     (addedFunctions, renamedFunctions)"
| "rename_loop functionSimilarity (deletedFunction # deletedFunctions) addedFunctions renamedFunctions =
     (let similarities =
            map (\<lambda>f. functionSimilarity (content f) (content deletedFunction)) addedFunctions
      in case snd (forEach_max similarities 0 (None, None)) of
           None \<Rightarrow> rename_loop functionSimilarity deletedFunctions addedFunctions renamedFunctions
         | Some maxSimilarityIndex \<Rightarrow>
             (let bestMatch = addedFunctions ! maxSimilarityIndex
              in rename_loop functionSimilarity deletedFunctions
                   (splice1 maxSimilarityIndex addedFunctions)
                   (renamedFunctions @
                      [\<lparr>old_function_name = name deletedFunction,
                        new_function_name = name bestMatch,
                        renamed_by_symbol = False\<rparr>])))"

definition deleted0 :: "FunctionInfo list \<Rightarrow> FunctionInfo list \<Rightarrow> FunctionInfo list" where
  "deleted0 intialFunctionInfo currentFunctionInfo =
     filter (\<lambda>f. name f \<notin> set (map name currentFunctionInfo)) intialFunctionInfo"

definition added0 :: "FunctionInfo list \<Rightarrow> FunctionInfo list \<Rightarrow> FunctionInfo list" where
  "added0 intialFunctionInfo currentFunctionInfo =
     filter (\<lambda>f. name f \<notin> set (map name intialFunctionInfo)) currentFunctionInfo"

definition functionChange ::
  "(string \<Rightarrow> FunctionInfo list) \<Rightarrow> (string \<Rightarrow> string \<Rightarrow> 's::linorder option)
     \<Rightarrow> string \<Rightarrow> string \<Rightarrow> FunctionChange" where
  "functionChange parseTopLevelFunctions functionSimilarity initialFunctionsCode functionsCode =
     (let intialFunctionInfo = parseTopLevelFunctions initialFunctionsCode;
          currentFunctionInfo = parseTopLevelFunctions functionsCode;
          deletedFunctions = deleted0 intialFunctionInfo currentFunctionInfo;
          (addedFunctions, renamedFunctions) =
             rename_loop functionSimilarity deletedFunctions
               (added0 intialFunctionInfo currentFunctionInfo) [];
          deletedFunctions' =
             filter (\<lambda>f. \<not> list_ex (\<lambda>rf. old_function_name rf = name f) renamedFunctions)
               deletedFunctions
      in \<lparr>functions_to_rename = renamedFunctions,
          functions_to_delete = map name deletedFunctions',
          functions_to_add = map name addedFunctions\<rparr>)"

subsection \<open>The greedy match as the specification words it\<close>

text \<open>Position of the first occurrence of \<open>x\<close> (the length when there is none).\<close>

fun first_position :: "'a \<Rightarrow> 'a list \<Rightarrow> nat" where
  "first_position x [] = 0"
| "first_position x (y # ys) = (if x = y then 0 else Suc (first_position x ys))"

text \<open>
  The candidate to pick among the scores of the remaining pool: none when every score
  is \<open>null\<close>, else the first position that holds the highest score.
\<close>

definition spec_best :: "'s::linorder option list \<Rightarrow> nat option" where
  "spec_best ss =
     (let vs = [v. Some v \<leftarrow> ss]
      in if vs = [] then None else Some (first_position (Some (Max (set vs))) ss))"

text \<open>
  The greedy, non-backtracking match: the deleted entries in their order, each one
  against the pool that is left; the result is the renames, the deleted entries left
  unmatched and the added entries left in the pool.
\<close>

fun spec_greedy ::
  "(string \<Rightarrow> string \<Rightarrow> 's::linorder option) \<Rightarrow> FunctionInfo list \<Rightarrow> FunctionInfo list
     \<Rightarrow> RenamedFunction list \<times> FunctionInfo list \<times> FunctionInfo list" where
  "spec_greedy sim [] pool = ([], [], pool)"
| "spec_greedy sim (d # ds) pool =
     (case spec_best (map (\<lambda>a. sim (content a) (content d)) pool) of
        None \<Rightarrow>
          (case spec_greedy sim ds pool of (rs, us, rest) \<Rightarrow> (rs, d # us, rest))
      | Some i \<Rightarrow>
          (case spec_greedy sim ds (take i pool @ drop (Suc i) pool) of
             (rs, us, rest) \<Rightarrow>
               (\<lparr>old_function_name = name d, new_function_name = name (pool ! i),
                 renamed_by_symbol = False\<rparr> # rs, us, rest)))"

text \<open>The scores that are not \<open>null\<close>, in order.\<close>

definition somes :: "'a option list \<Rightarrow> 'a list" where
  "somes ss = [v. Some v \<leftarrow> ss]"

text \<open>A two-function example: \<open>A\<close> and \<open>B\<close> were replaced by \<open>A2\<close> and \<open>B2\<close>.\<close>

definition example_parse :: "string \<Rightarrow> FunctionInfo list" where
  "example_parse code =
     (if code = ''baseline''
      then [\<lparr>name = ''A'', content = ''a''\<rparr>, \<lparr>name = ''B'', content = ''b''\<rparr>]
      else [\<lparr>name = ''A2'', content = ''a2''\<rparr>, \<lparr>name = ''B2'', content = ''b2''\<rparr>])"

definition example_similarity :: "string \<Rightarrow> string \<Rightarrow> real option" where
  "example_similarity added deleted =
     (if deleted = ''a'' then (if added = ''a2'' then Some (9 / 10) else Some (95 / 100))
      else Some (1 / 10))"

section \<open>The update manager\<close>

subsection \<open>Data model\<close>

text \<open>
  Modelled from the spec: the declarations of \<open>CodeType\<close> and \<open>FileInfo\<close> (module
  \<open>fileUtils/FileInfo\<close>, which is not among the sources). The members and fields are
  the ones the code names; the five categories are the spec's (section 3), the two
  checksums are optional, and the identifier names are typed \<open>string\<close> but receive
  \<open>exports[0]\<close> in \<open>fileMapFromIndexFiles\<close>, which is \<open>undefined\<close> for an empty
  export list.
\<close>

datatype CodeType = ACTION | WIDGET | FUNCTION | DEPENDENCIES | OTHER

record FileInfo =
  old_identifier_name :: js_string
  new_identifier_name :: js_string
  type :: CodeType
  is_deleted :: bool
  original_checksum :: "string option"
  current_checksum :: "string option"

text \<open>
  A JavaScript \<open>Map\<close> with string keys: the entries in insertion order, keys distinct.
  \<open>Map.get\<close> is \<open>map_of\<close>; \<open>Map.set\<close> is \<open>AList.update\<close> (an existing key keeps its
  place, a new key goes to the end); \<open>Map.delete\<close> is \<open>AList.delete\<close>.
  Every value sits under one key only, so writing a field of a stored object is an
  update of the entry under its key.
\<close>

type_synonym 'v js_map = "(string \<times> 'v) list"

type_synonym file_system = "string \<rightharpoonup> string"

datatype error =
    ENOENT string
  | Error string
  | TypeError
  | SyntaxError
  | Failure string

datatype 'a outcome = Returned 'a | Threw error

text \<open>
  The collaborators of the update manager that are not among the sources (the Dart
  parser, the boilerplate templates, the file-map reader and writer, the path
  classifier) and the platform functions (\<open>path\<close>, \<open>crypto\<close>, \<open>fs.readdir\<close>).
  Parsers may fail; writers and formatters cannot.
\<close>

record env =
  pathToCodeType :: "string \<Rightarrow> CodeType"
  toCamelCase :: "string \<Rightarrow> string"
  toPascalCase :: "string \<Rightarrow> string"
  getTopLevelNames :: "string \<Rightarrow> error + string list"
  parseIndexFileWithDart :: "string \<Rightarrow> error + string list js_map"
  formatDartCode :: "string \<Rightarrow> js_string"
  readFileMap :: "string \<Rightarrow> file_system \<Rightarrow> error + FileInfo js_map"
  writeFileMap :: "string \<Rightarrow> FileInfo js_map \<Rightarrow> file_system \<Rightarrow> file_system"
  insertCustomActionBoilerplate :: "string \<Rightarrow> bool \<Rightarrow> string \<Rightarrow> file_system \<Rightarrow> file_system"
  insertCustomWidgetBoilerplate :: "string \<Rightarrow> bool \<Rightarrow> string \<Rightarrow> file_system \<Rightarrow> file_system"
  path_join :: "string list \<Rightarrow> string"
  path_basename :: "string \<Rightarrow> string"
  path_basename_ext :: "string \<Rightarrow> string \<Rightarrow> string"
  path_relative :: "string \<Rightarrow> string \<Rightarrow> string"
  path_sep :: string
  readdir_recursive :: "string \<Rightarrow> file_system \<Rightarrow> error + string list"
  sha256_hex :: "string \<Rightarrow> string"

text \<open>
  What the manager acts on outside itself: the files on disk and the \<open>fileChange\<close>
  notifications delivered so far (oldest first). Console output is left out.
\<close>

record world =
  files :: file_system
  notified :: "(string \<times> FileInfo) list"

record UpdateManager =
  fileMap :: "FileInfo js_map"
  rootPath :: string
  actionIndex :: "string list js_map"
  widgetIndex :: "string list js_map"
  functionsCode :: string
  initialFunctionsCode :: string
  paused :: bool

subsection \<open>Helper functions\<close>

text \<open>\<open>fs.readFileSync\<close> and \<open>fs.promises.readFile\<close>: the content, or \<open>ENOENT\<close>.\<close>

definition readFile :: "world \<Rightarrow> string \<Rightarrow> error + string" where
  "readFile w p = (case files w p of None \<Rightarrow> Inl (ENOENT p) | Some text \<Rightarrow> Inr text)"

definition existsSync :: "world \<Rightarrow> string \<Rightarrow> bool" where
  "existsSync w p = (files w p \<noteq> None)"

definition writeFile :: "string \<Rightarrow> string \<Rightarrow> world \<Rightarrow> world" where
  "writeFile p text w = w\<lparr>files := (files w)(p \<mapsto> text)\<rparr>"

text \<open>\<open>xs.join(sep)\<close>, \<open>s.startsWith(p)\<close>, \<open>s.endsWith(p)\<close>, \<open>s.includes(p)\<close>.\<close>

fun js_join :: "string \<Rightarrow> string list \<Rightarrow> string" where
  "js_join sep [] = []"
| "js_join sep [x] = x"
| "js_join sep (x # y # ys) = x @ sep @ js_join sep (y # ys)"

definition startsWith :: "string \<Rightarrow> string \<Rightarrow> bool" where
  "startsWith s p = (take (length p) s = p)"

definition endsWith :: "string \<Rightarrow> string \<Rightarrow> bool" where
  "endsWith s p = (length p \<le> length s \<and> drop (length s - length p) s = p)"

fun js_includes :: "string \<Rightarrow> string \<Rightarrow> bool" where
  "js_includes [] p = (p = [])"
| "js_includes (c # cs) p = (startsWith (c # cs) p \<or> js_includes cs p)"

text \<open>A checksum field is falsy when it is absent or the empty string.\<close>

definition falsy :: "string option \<Rightarrow> bool" where
  "falsy c = (c = None \<or> c = Some [])"

text \<open>The text of a truthy name.\<close>

fun js_text :: "js_string \<Rightarrow> string" where
  "js_text (Str s) = s"
| "js_text _ = []"

definition kCustomFunctionsSnapshotPath :: "env \<Rightarrow> string" where
  "kCustomFunctionsSnapshotPath env =
     path_join env [''lib'', ''flutter_flow'', ''custom_functions_snapshot.txt'']"

definition actionsIndexPath :: "env \<Rightarrow> string \<Rightarrow> string" where
  "actionsIndexPath env root_path = path_join env [root_path, ''lib'', ''custom_code'', ''actions'', ''index.dart'']"

definition widgetsIndexPath :: "env \<Rightarrow> string \<Rightarrow> string" where
  "widgetsIndexPath env root_path = path_join env [root_path, ''lib'', ''custom_code'', ''widgets'', ''index.dart'']"

definition customFunctionsPath :: "env \<Rightarrow> string \<Rightarrow> string" where
  "customFunctionsPath env root_path = path_join env [root_path, ''lib'', ''flutter_flow'', ''custom_functions.dart'']"

definition computeChecksum :: "env \<Rightarrow> world \<Rightarrow> string \<Rightarrow> error + string" where
  "computeChecksum env w filePath =
     (case readFile w filePath of
        Inl e \<Rightarrow> Inl e
      | Inr fileContent \<Rightarrow> Inr (sha256_hex env fileContent))"

definition fullPath :: "env \<Rightarrow> string \<Rightarrow> string \<Rightarrow> FileInfo \<Rightarrow> string" where
  "fullPath env root_path filePath fileInfo =
     (case type fileInfo of
        ACTION \<Rightarrow> path_join env [root_path, ''lib'', ''custom_code'', ''actions'', filePath]
      | WIDGET \<Rightarrow> path_join env [root_path, ''lib'', ''custom_code'', ''widgets'', filePath]
      | FUNCTION \<Rightarrow> path_join env [root_path, ''lib'', ''flutter_flow'', filePath]
      | OTHER \<Rightarrow> path_join env [root_path, ''lib'', ''custom_code'', filePath]
      | DEPENDENCIES \<Rightarrow> path_join env [root_path, filePath])"

definition parseIndexFile :: "env \<Rightarrow> string \<Rightarrow> error + string list js_map" where
  "parseIndexFile env indexText = parseIndexFileWithDart env indexText"

definition saveIndexFile :: "env \<Rightarrow> string list js_map \<Rightarrow> string \<Rightarrow> world \<Rightarrow> world" where
  "saveIndexFile env indexContent filePath w =
     (let fileContent =
            js_join [CHR 0x0A]
              (map (\<lambda>(key, value). ''export '' @ [CHR 0x27] @ key @ [CHR 0x27] @ '' show ''
                                     @ js_join '', '' value @ '';'') indexContent);
          formattedContent = formatDartCode env fileContent
      in writeFile filePath
           (if truthy formattedContent then js_text formattedContent else ''// No exports'') w)"

text \<open>\<open>this._eventEmitter.emit('fileChange', fullFilePath, fileInfo)\<close>.\<close>

definition emit :: "string \<Rightarrow> FileInfo \<Rightarrow> world \<Rightarrow> world" where
  "emit fullFilePath fileInfo w = w\<lparr>notified := notified w @ [(fullFilePath, fileInfo)]\<rparr>"

text \<open>\<open>writeFileMap(this._rootPath, this._fileMap)\<close>.\<close>

definition persist :: "env \<Rightarrow> UpdateManager \<Rightarrow> world \<Rightarrow> world" where
  "persist env um w = w\<lparr>files := writeFileMap env (rootPath um) (fileMap um) (files w)\<rparr>"

text \<open>A field of the stored object under \<open>key\<close> is written: the entry is replaced in place.\<close>

definition store :: "string \<Rightarrow> FileInfo \<Rightarrow> UpdateManager \<Rightarrow> UpdateManager" where
  "store key fileInfo um = um\<lparr>fileMap := AList.update key fileInfo (fileMap um)\<rparr>"

subsection \<open>\<open>deleteFile\<close>, \<open>renameFile\<close>, \<open>updateFile\<close>, \<open>addFile\<close>\<close>

text \<open>
  Every entry point takes the manager and the world and gives back what the call
  returned or threw, with the manager and the world as the call left them (a throw keeps
  the writes made before it).
\<close>

definition deleteFile ::
  "env \<Rightarrow> string \<Rightarrow> UpdateManager \<times> world \<Rightarrow> FileInfo option outcome \<times> UpdateManager \<times> world" where
  "deleteFile env filePath s =
     (case s of (um, w) \<Rightarrow>
        if paused um then (Returned None, um, w)
        else
          let codeType = pathToCodeType env filePath;
              baseName = path_basename env filePath
          in if codeType = FUNCTION then (Threw (Error ''Cannot delete function file''), um, w)
             else
               (case map_of (fileMap um) baseName of
                  None \<Rightarrow> (Returned None, um, w)
                | Some fileInfo0 \<Rightarrow>
                    let fileInfo = fileInfo0\<lparr>is_deleted := True\<rparr>;
                        um1 = store baseName fileInfo um;
                        (um2, w2) =
                          (if codeType = ACTION then
                             (let um' = um1\<lparr>actionIndex := AList.delete baseName (actionIndex um1)\<rparr>
                              in (um', saveIndexFile env (actionIndex um')
                                         (actionsIndexPath env (rootPath um')) w))
                           else if codeType = WIDGET then
                             (let um' = um1\<lparr>widgetIndex := AList.delete baseName (widgetIndex um1)\<rparr>
                              in (um', saveIndexFile env (widgetIndex um')
                                         (widgetsIndexPath env (rootPath um')) w))
                           else (um1, w));
                        w3 = persist env um2 w2;
                        w4 = emit (fullPath env (rootPath um2) baseName fileInfo) fileInfo w3
                    in (Returned (Some fileInfo), um2, w4)))"

definition renameFile ::
  "env \<Rightarrow> string \<Rightarrow> string \<Rightarrow> UpdateManager \<times> world
     \<Rightarrow> FileInfo option outcome \<times> UpdateManager \<times> world" where
  "renameFile env oldFilePath newFilePath s =
     (case s of (um, w) \<Rightarrow>
        if paused um then (Returned None, um, w)
        else
          let oldBaseName = path_basename env oldFilePath
          in case map_of (fileMap um) oldBaseName of
               None \<Rightarrow> (Returned None, um, w)
             | Some fileInfo \<Rightarrow>
                 (Returned (Some fileInfo),
                  um\<lparr>fileMap := AList.delete oldBaseName
                                  (AList.update (path_basename env newFilePath) fileInfo (fileMap um))\<rparr>,
                  w))"

text \<open>
  The rename inference of \<open>updateFile\<close> for an action or widget file, from the parsed
  declaration names on: the record, the index of the category and the index file.
\<close>

definition inferRename ::
  "env \<Rightarrow> string \<Rightarrow> CodeType \<Rightarrow> string list \<Rightarrow> FileInfo \<Rightarrow> UpdateManager \<Rightarrow> world
     \<Rightarrow> FileInfo \<times> UpdateManager \<times> world" where
  "inferRename env baseName codeType topLevelDeclarations fileInfo um w =
     (let indexMap = (if codeType = ACTION then actionIndex um else widgetIndex um);
          indexExports = (case map_of indexMap baseName of None \<Rightarrow> [] | Some exports \<Rightarrow> exports)
      in if length indexExports = 0 then (fileInfo, um, w)
         else
           let newName = getNewName topLevelDeclarations indexExports (old_identifier_name fileInfo)
           in if truthy newName then
                (let fileInfo' = fileInfo\<lparr>new_identifier_name := newName\<rparr>
                 in if first_elem indexExports \<noteq> newName then
                      (let indexMap' = AList.update baseName [js_text newName] indexMap;
                           um' = (if codeType = ACTION then um\<lparr>actionIndex := indexMap'\<rparr>
                                  else um\<lparr>widgetIndex := indexMap'\<rparr>);
                           indexPath = (if codeType = ACTION then actionsIndexPath env (rootPath um)
                                        else widgetsIndexPath env (rootPath um))
                       in (fileInfo', um', saveIndexFile env indexMap' indexPath w))
                    else (fileInfo', um, w))
              else (fileInfo, um, w))"

text \<open>
  The block ``Handle updates for actions and widgets'' of \<open>updateFile\<close>: the file is read
  and parsed, then the rename is inferred; other categories pass through.
\<close>

definition updateActionOrWidget ::
  "env \<Rightarrow> string \<Rightarrow> string \<Rightarrow> CodeType \<Rightarrow> FileInfo \<Rightarrow> UpdateManager \<Rightarrow> world
     \<Rightarrow> error + FileInfo \<times> UpdateManager \<times> world" where
  "updateActionOrWidget env filePath baseName codeType fileInfo um w =
     (if codeType = ACTION \<or> codeType = WIDGET then
        (case readFile w filePath of
           Inl e \<Rightarrow> Inl e
         | Inr fileText \<Rightarrow>
             (case getTopLevelNames env fileText of
                Inl e \<Rightarrow> Inl e
              | Inr topLevelDeclarations \<Rightarrow>
                  Inr (inferRename env baseName codeType topLevelDeclarations fileInfo um w)))
      else Inr (fileInfo, um, w))"

text \<open>The block ``Handle updates for functions'': the functions code after the event.\<close>

definition updateFunctions :: "env \<Rightarrow> CodeType \<Rightarrow> UpdateManager \<Rightarrow> world \<Rightarrow> error + string" where
  "updateFunctions env codeType um w =
     (if codeType = FUNCTION then readFile w (customFunctionsPath env (rootPath um))
      else Inr (functionsCode um))"

definition updateFile ::
  "env \<Rightarrow> string \<Rightarrow> UpdateManager \<times> world \<Rightarrow> FileInfo option outcome \<times> UpdateManager \<times> world" where
  "updateFile env filePath s =
     (case s of (um, w) \<Rightarrow>
        if paused um then (Returned None, um, w)
        else
          let baseName = path_basename env filePath
          in case map_of (fileMap um) baseName of
               None \<Rightarrow> (Returned None, um, w)
             | Some fileInfo0 \<Rightarrow>
                 (case computeChecksum env w filePath of
                    Inl e \<Rightarrow> (Threw e, um, w)
                  | Inr checksum \<Rightarrow>
                      let fileInfo1 = fileInfo0\<lparr>current_checksum := Some checksum\<rparr>
                      in if current_checksum fileInfo1 = original_checksum fileInfo1
                         then (Returned (Some fileInfo1), store baseName fileInfo1 um, w)
                         else
                           let codeType = pathToCodeType env filePath;
                               fileInfo2 = fileInfo1\<lparr>is_deleted := False\<rparr>
                           in case updateActionOrWidget env filePath baseName codeType fileInfo2 um w of
                                Inl e \<Rightarrow> (Threw e, store baseName fileInfo2 um, w)
                              | Inr (fileInfo3, um3, w3) \<Rightarrow>
                                  (case updateFunctions env codeType um3 w3 of
                                     Inl e \<Rightarrow> (Threw e, store baseName fileInfo3 um3, w3)
                                   | Inr code \<Rightarrow>
                                       let um4 = store baseName fileInfo3 (um3\<lparr>functionsCode := code\<rparr>);
                                           w4 = persist env um4 w3;
                                           w5 = emit (fullPath env (rootPath um4) baseName fileInfo3)
                                                  fileInfo3 w4
                                       in (Returned (Some fileInfo3), um4, w5))))"

definition themeImportPath :: "env \<Rightarrow> UpdateManager \<Rightarrow> world \<Rightarrow> error + string" where
  "themeImportPath env um w =
     (case readFile w (path_join env [rootPath um, ''pubspec.yaml'']) of
        Inl e \<Rightarrow> Inl e
      | Inr pubspecText \<Rightarrow>
          Inr (if js_includes pubspecText ''ff_theme''
               then [CHR 0x27] @ ''package:ff_theme/flutter_flow/flutter_flow_theme.dart'' @ [CHR 0x27]
               else [CHR 0x27] @ ''/flutter_flow/flutter_flow_theme.dart'' @ [CHR 0x27]))"

definition customFunctionsExist :: bool where
  "customFunctionsExist = True"

definition insertBoilerplate :: "env \<Rightarrow> string \<Rightarrow> UpdateManager \<Rightarrow> world \<Rightarrow> error + world" where
  "insertBoilerplate env filePath um w =
     (if pathToCodeType env filePath = ACTION then
        (case themeImportPath env um w of
           Inl e \<Rightarrow> Inl e
         | Inr theme \<Rightarrow>
             Inr (w\<lparr>files := insertCustomActionBoilerplate env filePath customFunctionsExist theme (files w)\<rparr>))
      else if pathToCodeType env filePath = WIDGET then
        (case themeImportPath env um w of
           Inl e \<Rightarrow> Inl e
         | Inr theme \<Rightarrow>
             Inr (w\<lparr>files := insertCustomWidgetBoilerplate env filePath customFunctionsExist theme (files w)\<rparr>))
      else Inr w)"

text \<open>The record that \<open>addFile\<close> creates for a path, and the key it is stored under.\<close>

definition impliedName :: "env \<Rightarrow> string \<Rightarrow> string" where
  "impliedName env filePath =
     (if pathToCodeType env filePath = WIDGET
      then toPascalCase env (path_basename_ext env filePath ''.dart'')
      else toCamelCase env (path_basename_ext env filePath ''.dart''))"

definition newFileInfo :: "env \<Rightarrow> string \<Rightarrow> FileInfo" where
  "newFileInfo env filePath =
     \<lparr>old_identifier_name = Str (impliedName env filePath),
      new_identifier_name = Str (impliedName env filePath),
      type = pathToCodeType env filePath,
      is_deleted = False,
      original_checksum = None,
      current_checksum = None\<rparr>"

definition newFileKey :: "env \<Rightarrow> UpdateManager \<Rightarrow> string \<Rightarrow> string" where
  "newFileKey env um filePath =
     (if pathToCodeType env filePath = OTHER
      then path_relative env (path_join env [rootPath um, ''lib'', ''custom_code'']) filePath
      else path_basename env filePath)"

text \<open>\<open>existingFileInfo && existingFileInfo.type === codeType\<close>.\<close>

definition sameCategoryExists :: "env \<Rightarrow> UpdateManager \<Rightarrow> string \<Rightarrow> bool" where
  "sameCategoryExists env um filePath =
     (case map_of (fileMap um) (path_basename env filePath) of
        None \<Rightarrow> False
      | Some existingFileInfo \<Rightarrow> type existingFileInfo = pathToCodeType env filePath)"

definition addFile ::
  "env \<Rightarrow> string \<Rightarrow> UpdateManager \<times> world \<Rightarrow> FileInfo option outcome \<times> UpdateManager \<times> world" where
  "addFile env filePath s =
     (case s of (um, w) \<Rightarrow>
        if paused um then (Returned None, um, w)
        else
          let codeType = pathToCodeType env filePath
          in case readFile w filePath of
               Inl e \<Rightarrow> (Threw e, um, w)
             | Inr fileText \<Rightarrow>
                 (case (if length fileText = 0 then insertBoilerplate env filePath um w else Inr w) of
                    Inl e \<Rightarrow> (Threw e, um, w)
                  | Inr w1 \<Rightarrow>
                      let baseName = path_basename env filePath
                      in if sameCategoryExists env um filePath then updateFile env filePath (um, w1)
                         else
                           let fileInfo = newFileInfo env filePath;
                               um1 = store (newFileKey env um filePath) fileInfo um;
                               (um2, w2) =
                                 (if codeType = ACTION then
                                    (let um' = um1\<lparr>actionIndex :=
                                                   AList.update baseName [impliedName env filePath] (actionIndex um1)\<rparr>
                                     in (um', saveIndexFile env (actionIndex um')
                                                (actionsIndexPath env (rootPath um')) w1))
                                  else if codeType = WIDGET then
                                    (let um' = um1\<lparr>widgetIndex :=
                                                   AList.update baseName [impliedName env filePath] (widgetIndex um1)\<rparr>
                                     in (um', saveIndexFile env (widgetIndex um')
                                                (widgetsIndexPath env (rootPath um')) w1))
                                  else (um1, w1));
                               w3 = persist env um2 w2;
                               w4 = emit (fullPath env (rootPath um2) baseName fileInfo) fileInfo w3
                           in (Returned (Some fileInfo), um2, w4)))"

subsection \<open>\<open>pause\<close>, \<open>resume\<close>, \<open>setToSynced\<close>\<close>

definition pause :: "UpdateManager \<Rightarrow> UpdateManager" where
  "pause um = um\<lparr>paused := True\<rparr>"

definition resume :: "UpdateManager \<Rightarrow> UpdateManager" where
  "resume um = um\<lparr>paused := False\<rparr>"

definition setToSynced :: "env \<Rightarrow> UpdateManager \<times> world \<Rightarrow> UpdateManager \<times> world" where
  "setToSynced env s =
     (case s of (um, w) \<Rightarrow>
        let synced = map (\<lambda>(key, fileInfo).
                            (key, fileInfo\<lparr>original_checksum := current_checksum fileInfo,
                                            old_identifier_name := new_identifier_name fileInfo\<rparr>))
                       (fileMap um);
            um1 = um\<lparr>fileMap := filter (\<lambda>(_, fileInfo). \<not> is_deleted fileInfo) synced\<rparr>;
            um2 = um1\<lparr>initialFunctionsCode := functionsCode um1\<rparr>;
            w1 = persist env um2 w;
            w2 = writeFile (path_join env [rootPath um2, kCustomFunctionsSnapshotPath env])
                   (initialFunctionsCode um2) w1
        in (um2, w2))"

subsection \<open>Loading: \<open>computeFileMap\<close>, \<open>deserializeUpdateManager\<close>, \<open>refresh\<close>\<close>

definition fileMapFromIndexFiles ::
  "env \<Rightarrow> string list js_map \<Rightarrow> string list js_map \<Rightarrow> FileInfo js_map" where
  "fileMapFromIndexFiles env actionIndex' widgetIndex' =
     (let fileMap1 =
            fold (\<lambda>(filename, exports).
                    AList.update (path_basename env filename)
                      \<lparr>old_identifier_name = first_elem exports,
                       new_identifier_name = first_elem exports,
                       type = ACTION, is_deleted = False,
                       original_checksum = None, current_checksum = None\<rparr>)
              actionIndex' [];
          fileMap2 =
            fold (\<lambda>(filename, exports).
                    AList.update (path_basename env filename)
                      \<lparr>old_identifier_name = first_elem exports,
                       new_identifier_name = first_elem exports,
                       type = WIDGET, is_deleted = False,
                       original_checksum = None, current_checksum = None\<rparr>)
              widgetIndex' fileMap1;
          fileMap3 =
            AList.update ''custom_functions.dart''
              \<lparr>old_identifier_name = Str ''CustomFunctions'',
               new_identifier_name = Str ''CustomFunctions'',
               type = FUNCTION, is_deleted = False,
               original_checksum = None, current_checksum = None\<rparr> fileMap2
      in AList.update ''pubspec.yaml''
           \<lparr>old_identifier_name = Str ''pubspec.yaml'',
            new_identifier_name = Str ''pubspec.yaml'',
            type = DEPENDENCIES, is_deleted = False,
            original_checksum = None, current_checksum = None\<rparr> fileMap3)"

text \<open>
  The last loop of \<open>computeFileMap\<close>: both checksums of every entry, from the file at
  the place its category gives; the first unreadable file ends the loop with its error.
\<close>

fun checksumEntries ::
  "env \<Rightarrow> string \<Rightarrow> world \<Rightarrow> FileInfo js_map \<Rightarrow> error + FileInfo js_map" where
  "checksumEntries env filePath w [] = Inr []"
| "checksumEntries env filePath w ((filename, fileInfo) # entries) =
     (case computeChecksum env w
             (case type fileInfo of
                ACTION \<Rightarrow> path_join env [filePath, ''lib'', ''custom_code'', ''actions'', filename]
              | WIDGET \<Rightarrow> path_join env [filePath, ''lib'', ''custom_code'', ''widgets'', filename]
              | FUNCTION \<Rightarrow> path_join env [filePath, ''lib'', ''flutter_flow'', filename]
              | OTHER \<Rightarrow> path_join env [filePath, ''lib'', ''custom_code'', filename]
              | DEPENDENCIES \<Rightarrow> path_join env [filePath, filename]) of
        Inl e \<Rightarrow> Inl e
      | Inr fileChecksum \<Rightarrow>
          (case checksumEntries env filePath w entries of
             Inl e \<Rightarrow> Inl e
           | Inr entries' \<Rightarrow>
               Inr ((filename, fileInfo\<lparr>current_checksum := Some fileChecksum,
                                         original_checksum := Some fileChecksum\<rparr>) # entries')))"

definition computeFileMap :: "env \<Rightarrow> string \<Rightarrow> world \<Rightarrow> error + FileInfo js_map" where
  "computeFileMap env filePath w =
     (case readFile w (actionsIndexPath env filePath) of
        Inl e \<Rightarrow> Inl e
      | Inr actionText \<Rightarrow>
     (case parseIndexFile env actionText of
        Inl e \<Rightarrow> Inl e
      | Inr actionIndex' \<Rightarrow>
     (case readFile w (widgetsIndexPath env filePath) of
        Inl e \<Rightarrow> Inl e
      | Inr widgetText \<Rightarrow>
     (case parseIndexFile env widgetText of
        Inl e \<Rightarrow> Inl e
      | Inr widgetIndex' \<Rightarrow>
     (case readdir_recursive env (path_join env [filePath, ''lib'', ''custom_code'']) (files w) of
        Inl e \<Rightarrow> Inl e
      | Inr entries \<Rightarrow>
          let customCodeFiles =
                filter (\<lambda>file. \<not> startsWith file (''widgets'' @ path_sep env)
                              \<and> \<not> startsWith file (''actions'' @ path_sep env)
                              \<and> endsWith file ''.dart'') entries;
              newFileMap =
                fold (\<lambda>file. AList.update file
                               \<lparr>old_identifier_name = Str file, new_identifier_name = Str file,
                                type = OTHER, is_deleted = False,
                                original_checksum = None, current_checksum = None\<rparr>)
                  customCodeFiles (fileMapFromIndexFiles env actionIndex' widgetIndex')
          in checksumEntries env filePath w newFileMap)))))"

text \<open>
  The file map that \<open>deserializeUpdateManager\<close> starts from: the persisted snapshot (with
  an entry for \<open>pubspec.yaml\<close> added when it has none) if \<open>.vscode/file_map.json\<close>
  exists, else the computed one.
\<close>

definition loadedFileMap :: "env \<Rightarrow> string \<Rightarrow> world \<Rightarrow> error + FileInfo js_map" where
  "loadedFileMap env projectPath w =
     (if existsSync w (path_join env [projectPath, ''.vscode'', ''file_map.json'']) then
        (case readFileMap env projectPath (files w) of
           Inl e \<Rightarrow> Inl e
         | Inr fileMap' \<Rightarrow>
             Inr (if map_of fileMap' ''pubspec.yaml'' = None
                  then AList.update ''pubspec.yaml''
                         \<lparr>old_identifier_name = Str ''pubspec.yaml'',
                          new_identifier_name = Str ''pubspec.yaml'',
                          type = DEPENDENCIES, is_deleted = False,
                          original_checksum = None, current_checksum = None\<rparr> fileMap'
                  else fileMap'))
      else computeFileMap env projectPath w)"

text \<open>
  The loop ``Verify and compute checksums if needed'': an entry whose two checksums are
  both falsy gets both from the hash of its file.
\<close>

fun verifyChecksums ::
  "env \<Rightarrow> string \<Rightarrow> world \<Rightarrow> FileInfo js_map \<Rightarrow> error + FileInfo js_map" where
  "verifyChecksums env projectPath w [] = Inr []"
| "verifyChecksums env projectPath w ((filePath, fileInfo) # entries) =
     (if falsy (original_checksum fileInfo) \<and> falsy (current_checksum fileInfo) then
        (case computeChecksum env w (fullPath env projectPath filePath fileInfo) of
           Inl e \<Rightarrow> Inl e
         | Inr checksum \<Rightarrow>
             (case verifyChecksums env projectPath w entries of
                Inl e \<Rightarrow> Inl e
              | Inr entries' \<Rightarrow>
                  Inr ((filePath, fileInfo\<lparr>original_checksum := Some checksum,
                                            current_checksum := Some checksum\<rparr>) # entries')))
      else
        (case verifyChecksums env projectPath w entries of
           Inl e \<Rightarrow> Inl e
         | Inr entries' \<Rightarrow> Inr ((filePath, fileInfo) # entries')))"

definition deserializeUpdateManager :: "env \<Rightarrow> string \<Rightarrow> world \<Rightarrow> error + UpdateManager \<times> world" where
  "deserializeUpdateManager env projectPath w =
     (case readFile w (actionsIndexPath env projectPath) of
        Inl e \<Rightarrow> Inl e
      | Inr actionIndexContent \<Rightarrow>
     (case parseIndexFile env actionIndexContent of
        Inl e \<Rightarrow> Inl e
      | Inr actionIndex' \<Rightarrow>
     (case readFile w (widgetsIndexPath env projectPath) of
        Inl e \<Rightarrow> Inl e
      | Inr widgetIndexContent \<Rightarrow>
     (case parseIndexFile env widgetIndexContent of
        Inl e \<Rightarrow> Inl e
      | Inr widgetIndex' \<Rightarrow>
     (case readFile w (customFunctionsPath env projectPath) of
        Inl e \<Rightarrow> Inl e
      | Inr functionsCode' \<Rightarrow>
     (case (if existsSync w (path_join env [projectPath, kCustomFunctionsSnapshotPath env])
            then readFile w (path_join env [projectPath, kCustomFunctionsSnapshotPath env])
            else Inr functionsCode') of
        Inl e \<Rightarrow> Inl e
      | Inr initialFunctionsCode' \<Rightarrow>
     (case loadedFileMap env projectPath w of
        Inl e \<Rightarrow> Inl e
      | Inr fileMap0 \<Rightarrow>
     (case verifyChecksums env projectPath w fileMap0 of
        Inl e \<Rightarrow> Inl e
      | Inr fileMap' \<Rightarrow>
          let um = \<lparr>fileMap = fileMap', rootPath = projectPath,
                    actionIndex = actionIndex', widgetIndex = widgetIndex',
                    functionsCode = functionsCode',
                    initialFunctionsCode = initialFunctionsCode',
                    paused = False\<rparr>
          in Inr (um, persist env um w)))))))))"

text \<open>
  One guarded index read of \<open>refresh\<close>: the parsed index, or the empty one when the read
  or the parse fails (the failure is logged).
\<close>

definition readIndexOrEmpty :: "env \<Rightarrow> world \<Rightarrow> string \<Rightarrow> string list js_map" where
  "readIndexOrEmpty env w indexPath =
     (case readFile w indexPath of
        Inl e \<Rightarrow> []
      | Inr indexText \<Rightarrow>
          (case parseIndexFile env indexText of Inl e \<Rightarrow> [] | Inr index' \<Rightarrow> index'))"

definition refresh :: "env \<Rightarrow> UpdateManager \<times> world \<Rightarrow> unit outcome \<times> UpdateManager \<times> world" where
  "refresh env s =
     (case s of (um, w) \<Rightarrow>
        let um1 = um\<lparr>actionIndex := readIndexOrEmpty env w (actionsIndexPath env (rootPath um))\<rparr>;
            um2 = um1\<lparr>widgetIndex := readIndexOrEmpty env w (widgetsIndexPath env (rootPath um))\<rparr>
        in case computeFileMap env (rootPath um2) w of
             Inl e \<Rightarrow> (Threw e, um2, w)
           | Inr fileMap' \<Rightarrow>
               (case readFile w (customFunctionsPath env (rootPath um2)) of
                  Inl e \<Rightarrow> (Threw e, um2\<lparr>fileMap := fileMap'\<rparr>, w)
                | Inr code \<Rightarrow>
                    (Returned (),
                     um2\<lparr>fileMap := fileMap', functionsCode := code, initialFunctionsCode := code\<rparr>,
                     w)))"

section \<open>Decoding the sync response: \<open>parseSyncCodeResponse\<close>\<close>

text \<open>
  A parsed JSON value. An object is the list of its properties in order, each key once;
  a number keeps its text. \<open>JSON.parse\<close> and the conversion of a non-string argument of
  \<open>JSON.parse\<close> to text belong to the platform and are parameters: \<open>JSON_parse\<close> gives
  \<open>None\<close> where JavaScript throws a \<open>SyntaxError\<close>.
\<close>

datatype json =
    JNull
  | JBool bool
  | JNumber string
  | JString string
  | JArray "json list"
  | JObject "(string \<times> json) list"

text \<open>A response: whether the status is in the success range, and the text of the body.\<close>

record Response =
  ok :: bool
  body :: string

text \<open>The decimal text of an array index.\<close>

fun index_text :: "nat \<Rightarrow> string" where
  "index_text n =
     (if n < 10 then [char_of (48 + n)]
      else index_text (n div 10) @ [char_of (48 + n mod 10)])"

text \<open>
  \<open>Object.entries(v)\<close>: the properties of an object, the indexed elements of an array
  or of a string, nothing for a number or a boolean, a \<open>TypeError\<close> for \<open>null\<close>.
\<close>

fun Object_entries :: "json \<Rightarrow> error + (string \<times> json) list" where
  "Object_entries JNull = Inl TypeError"
| "Object_entries (JObject properties) = Inr properties"
| "Object_entries (JArray elements) = Inr (zip (map index_text [0..<length elements]) elements)"
| "Object_entries (JString s) =
     Inr (zip (map index_text [0..<length s]) (map (\<lambda>c. JString [c]) s))"
| "Object_entries (JBool b) = Inr []"
| "Object_entries (JNumber n) = Inr []"

text \<open>\<open>new Map(entries)\<close>: the entries set one after the other.\<close>

definition new_Map :: "(string \<times> 'v) list \<Rightarrow> 'v js_map" where
  "new_Map entries = fold (\<lambda>(key, v). AList.update key v) entries []"

text \<open>
  \<open>jsonResult.value\<close>: a \<open>TypeError\<close> on \<open>null\<close>, the property of an object, else
  \<open>undefined\<close> (\<open>None\<close>).
\<close>

fun property_value :: "json \<Rightarrow> error + json option" where
  "property_value JNull = Inl TypeError"
| "property_value (JObject properties) = Inr (map_of properties ''value'')"
| "property_value _ = Inr None"

text \<open>The text that \<open>JSON.parse\<close> reads for an argument that may not be a string.\<close>

fun parse_argument :: "(json \<Rightarrow> string) \<Rightarrow> json option \<Rightarrow> string" where
  "parse_argument String_of None = ''undefined''"
| "parse_argument String_of (Some (JString s)) = s"
| "parse_argument String_of (Some v) = String_of v"

definition parseSyncCodeResponse ::
  "(string \<Rightarrow> json option) \<Rightarrow> (json \<Rightarrow> string) \<Rightarrow> Response \<Rightarrow> error + json js_map" where
  "parseSyncCodeResponse JSON_parse String_of response =
     (case JSON_parse (body response) of
        None \<Rightarrow> Inl (Error (body response))
      | Some jsonResult \<Rightarrow>
          if \<not> ok response then
            (case Object_entries jsonResult of
               Inl e \<Rightarrow> Inl e
             | Inr entries \<Rightarrow> Inr (new_Map entries))
          else
            (case property_value jsonResult of
               Inl e \<Rightarrow> Inl e
             | Inr v \<Rightarrow>
                 (case JSON_parse (parse_argument String_of v) of
                    None \<Rightarrow> Inl SyntaxError
                  | Some valueObject \<Rightarrow>
                      (case Object_entries valueObject of
                         Inl e \<Rightarrow> Inl e
                       | Inr entries \<Rightarrow> Inr (new_Map entries)))))"

section \<open>Sequences of file events\<close>

datatype operation = Add string | Update string | Delete string | Rename string string

text \<open>The manager and the world after one event, whether the handler returned or threw.\<close>

fun apply_operation :: "env \<Rightarrow> operation \<Rightarrow> UpdateManager \<times> world \<Rightarrow> UpdateManager \<times> world" where
  "apply_operation env (Add filePath) s = snd (addFile env filePath s)"
| "apply_operation env (Update filePath) s = snd (updateFile env filePath s)"
| "apply_operation env (Delete filePath) s = snd (deleteFile env filePath s)"
| "apply_operation env (Rename oldFilePath newFilePath) s = snd (renameFile env oldFilePath newFilePath s)"

fun run :: "env \<Rightarrow> operation list \<Rightarrow> UpdateManager \<times> world \<Rightarrow> UpdateManager \<times> world" where
  "run env [] s = s"
| "run env (operation # operations) s = run env operations (apply_operation env operation s)"

text \<open>
  An event puts another record under \<open>key\<close>: an add that creates a record there, or a
  rename that moves a record there.
\<close>

fun binds_record :: "env \<Rightarrow> operation \<Rightarrow> UpdateManager \<Rightarrow> string \<Rightarrow> bool" where
  "binds_record env (Add filePath) um key =
     (\<not> paused um \<and> \<not> sameCategoryExists env um filePath \<and> newFileKey env um filePath = key)"
| "binds_record env (Rename oldFilePath newFilePath) um key =
     (\<not> paused um \<and> map_of (fileMap um) (path_basename env oldFilePath) \<noteq> None
      \<and> path_basename env newFilePath = key)"
| "binds_record env (Update filePath) um key = False"
| "binds_record env (Delete filePath) um key = False"

text \<open>No event of the sequence, run from \<open>s\<close>, puts another record under \<open>key\<close>.\<close>

fun same_record :: "env \<Rightarrow> string \<Rightarrow> operation list \<Rightarrow> UpdateManager \<times> world \<Rightarrow> bool" where
  "same_record env key [] s = True"
| "same_record env key (operation # operations) s =
     (\<not> binds_record env operation (fst s) key
      \<and> same_record env key operations (apply_operation env operation s))"

text \<open>The category of the record under \<open>key\<close>, if there is one.\<close>

definition category_at :: "UpdateManager \<Rightarrow> string \<Rightarrow> CodeType option" where
  "category_at um key = map_option type (map_of (fileMap um) key)"

section \<open>An example project\<close>

fun after_last_slash :: "string \<Rightarrow> string \<Rightarrow> string" where
  "after_last_slash acc [] = acc"
| "after_last_slash acc (c # cs) =
     (if c = CHR ''/'' then after_last_slash [] cs else after_last_slash (acc @ [c]) cs)"

definition example_codeType :: "string \<Rightarrow> CodeType" where
  "example_codeType p =
     (if js_includes p ''/actions/'' then ACTION
      else if js_includes p ''/widgets/'' then WIDGET
      else if endsWith p ''custom_functions.dart'' then FUNCTION
      else if endsWith p ''pubspec.yaml'' then DEPENDENCIES
      else OTHER)"

definition example_writeFileMap :: "string \<Rightarrow> FileInfo js_map \<Rightarrow> file_system \<Rightarrow> file_system" where
  "example_writeFileMap dir entries disk =
     disk(dir @ ''/.vscode/file_map.json'' \<mapsto> js_join '','' (map fst entries))"

definition example_snapshot :: "FileInfo js_map" where
  "example_snapshot =
     [(''foo.dart'',
       \<lparr>old_identifier_name = Str ''oldAction'', new_identifier_name = Str ''oldAction'',
        type = ACTION, is_deleted = False,
        original_checksum = None, current_checksum = Some ''sha256:newAction''\<rparr>),
      (''pubspec.yaml'',
       \<lparr>old_identifier_name = Str ''pubspec.yaml'', new_identifier_name = Str ''pubspec.yaml'',
        type = DEPENDENCIES, is_deleted = False,
        original_checksum = None, current_checksum = None\<rparr>)]"

definition example_env :: env where
  "example_env =
     \<lparr>pathToCodeType = example_codeType,
      toCamelCase = (\<lambda>s. s),
      toPascalCase = (\<lambda>s. s),
      getTopLevelNames = (\<lambda>fileText. Inr [fileText]),
      parseIndexFileWithDart = (\<lambda>indexText. Inr []),
      formatDartCode = Str,
      readFileMap = (\<lambda>dir disk. Inr example_snapshot),
      writeFileMap = example_writeFileMap,
      insertCustomActionBoilerplate = (\<lambda>filePath functionsExist theme disk. disk(filePath \<mapsto> theme)),
      insertCustomWidgetBoilerplate = (\<lambda>filePath functionsExist theme disk. disk(filePath \<mapsto> theme)),
      path_join = js_join ''/'',
      path_basename = after_last_slash [],
      path_basename_ext = (\<lambda>p ext. take (length (after_last_slash [] p) - length ext) (after_last_slash [] p)),
      path_relative = (\<lambda>dir p. drop (Suc (length dir)) p),
      path_sep = ''/'',
      readdir_recursive = (\<lambda>dir disk. Inr []),
      sha256_hex = (\<lambda>fileContent. ''sha256:'' @ fileContent)\<rparr>"

definition example_manager :: UpdateManager where
  "example_manager =
     \<lparr>fileMap =
        [(''foo.dart'',
          \<lparr>old_identifier_name = Str ''oldAction'', new_identifier_name = Str ''oldAction'',
           type = ACTION, is_deleted = False,
           original_checksum = Some ''sha256:newAction'', current_checksum = None\<rparr>),
         (''bar.dart'',
          \<lparr>old_identifier_name = Str ''Bar'', new_identifier_name = Str ''Bar2'',
           type = WIDGET, is_deleted = False,
           original_checksum = Some ''sha256:x'', current_checksum = Some ''sha256:y''\<rparr>),
         (''gone.dart'',
          \<lparr>old_identifier_name = Str ''gone'', new_identifier_name = Str ''gone'',
           type = ACTION, is_deleted = True,
           original_checksum = Some ''sha256:z'', current_checksum = Some ''sha256:z''\<rparr>)],
      rootPath = ''/p'',
      actionIndex = [(''foo.dart'', [''oldAction'']), (''gone.dart'', [''gone''])],
      widgetIndex = [(''bar.dart'', [''Bar''])],
      functionsCode = ''f2'',
      initialFunctionsCode = ''f1'',
      paused = False\<rparr>"

definition example_disk :: file_system where
  "example_disk =
     [''/p/lib/custom_code/actions/foo.dart'' \<mapsto> ''newAction'',
      ''/p/lib/custom_code/widgets/foo.dart'' \<mapsto> ''Foo'',
      ''/p/pubspec.yaml'' \<mapsto> ''name: p'',
      ''/p/.vscode/file_map.json'' \<mapsto> ''foo.dart,pubspec.yaml'',
      ''/p/lib/custom_code/actions/index.dart'' \<mapsto> ''// No exports'',
      ''/p/lib/custom_code/widgets/index.dart'' \<mapsto> ''// No exports'',
      ''/p/lib/flutter_flow/custom_functions.dart'' \<mapsto> ''f2'']"

definition example_world :: world where
  "example_world = \<lparr>files = example_disk, notified = []\<rparr>"

text \<open>A project directory without any file.\<close>

definition empty_world :: world where
  "empty_world = \<lparr>files = Map.empty, notified = []\<rparr>"

text \<open>The two responses of the specification's scenarios, and the parser on their texts.\<close>

definition example_failure_body :: string where
  \<open>example_failure_body = ''{"foo.dart":[{"message":"bad"}]}''\<close>

definition example_success_body :: string where
  \<open>example_success_body =
     ''{"value": "{'' @ [CHR 0x5C] @ ''"foo.dart'' @ [CHR 0x5C] @ ''":[]}"}''\<close>

definition example_JSON_parse :: "string \<Rightarrow> json option" where
  \<open>example_JSON_parse s =
     (if s = example_failure_body
      then Some (JObject [(''foo.dart'', JArray [JObject [(''message'', JString ''bad'')]])])
      else if s = example_success_body
      then Some (JObject [(''value'', JString ''{"foo.dart":[]}'')])
      else if s = ''{"foo.dart":[]}''
      then Some (JObject [(''foo.dart'', JArray [])])
      else None)\<close>

definition example_String_of :: "json \<Rightarrow> string" where
  "example_String_of v = ''[object Object]''"

text \<open>
  What the checksum verification of \<open>deserializeUpdateManager\<close> makes of one loaded
  entry: an entry without any checksum gets the hash of its file in both fields, any
  other entry stays as it was loaded.
\<close>

definition verified_entry ::
  "env \<Rightarrow> string \<Rightarrow> world \<Rightarrow> string \<times> FileInfo \<Rightarrow> string \<times> FileInfo \<Rightarrow> bool" where
  "verified_entry env projectPath w loaded verified =
     (fst verified = fst loaded
      \<and> (if falsy (original_checksum (snd loaded)) \<and> falsy (current_checksum (snd loaded))
         then (case computeChecksum env w (fullPath env projectPath (fst loaded) (snd loaded)) of
                 Inl e \<Rightarrow> False
               | Inr checksum \<Rightarrow>
                   snd verified = (snd loaded)\<lparr>original_checksum := Some checksum,
                                               current_checksum := Some checksum\<rparr>)
         else snd verified = snd loaded))"

text \<open>The keys of the file map with the category of their records, in order.\<close>

definition categories :: "UpdateManager \<Rightarrow> (string \<times> CodeType) list" where
  "categories um = map (\<lambda>(key, fileInfo). (key, type fileInfo)) (fileMap um)"

text \<open>The manager as \<open>deserializeUpdateManager\<close> builds it in the example project.\<close>

definition example_loaded :: UpdateManager where
  "example_loaded =
     \<lparr>fileMap =
        [(''foo.dart'',
          \<lparr>old_identifier_name = Str ''oldAction'', new_identifier_name = Str ''oldAction'',
           type = ACTION, is_deleted = False,
           original_checksum = None, current_checksum = Some ''sha256:newAction''\<rparr>),
         (''pubspec.yaml'',
          \<lparr>old_identifier_name = Str ''pubspec.yaml'', new_identifier_name = Str ''pubspec.yaml'',
           type = DEPENDENCIES, is_deleted = False,
           original_checksum = Some ''sha256:name: p'', current_checksum = Some ''sha256:name: p''\<rparr>)],
      rootPath = ''/p'',
      actionIndex = [],
      widgetIndex = [],
      functionsCode = ''f2'',
      initialFunctionsCode = ''f2'',
      paused = False\<rparr>"

section \<open>Properties\<close>

lemma find_equal_Str:
  "find_equal ds (Str x) = (if x \<in> set ds then Str x else Undefined)"
  by (induction ds) auto

lemma inFileDeclaration_Str:
  "inFileDeclaration ds (e # es) (Str old) =
     (if e \<in> set ds then Str e else if old \<in> set ds then Str old else first_elem ds)"
  by (simp add: inFileDeclaration_def find_equal_Str)

text \<open>
  Claim C1. For every list of top-level declarations, every non-empty export list
  \<open>e # es\<close> and every previously known name \<open>old\<close>: the file name chosen by
  \<open>getNewName\<close> is the declaration equal to the first export if there is one, else the
  declaration equal to the previous name if there is one, else the first declaration
  (\<open>undefined\<close> for a file without declarations); and the result follows the four-row
  table: no rename (\<open>null\<close>) when the first export equals both the file name and the
  previous name, the file name when the first export equals the file name but not the
  previous name, the file name when the first export equals the previous name and the
  file name differs from it, and no rename when the first export equals neither.
\<close>

theorem getNewName_truth_table:
  "(let fileName = inFileDeclaration ds (e # es) (Str old);
        newName = getNewName ds (e # es) (Str old)
    in fileName = (if e \<in> set ds then Str e
                   else if old \<in> set ds then Str old
                   else first_elem ds)
     \<and> (Str e = fileName \<and> e = old \<longrightarrow> newName = Null)
     \<and> (Str e = fileName \<and> e \<noteq> old \<longrightarrow> newName = fileName)
     \<and> (e = old \<and> fileName \<noteq> Str old \<longrightarrow> newName = fileName)
     \<and> (Str e \<noteq> fileName \<and> e \<noteq> old \<longrightarrow> newName = Null))"
  by (cases ds) (auto simp add: Let_def inFileDeclaration_Str getNewName_def)

theorem getNewName_truth_table_witness:
  "inFileDeclaration [''helper'', ''newAction''] [''oldAction''] (Str ''oldAction'') = Str ''helper''
   \<and> getNewName [''helper'', ''newAction''] [''oldAction''] (Str ''oldAction'') = Str ''helper''
   \<and> getNewName [''newAction''] [''newAction''] (Str ''oldAction'') = Str ''newAction''
   \<and> getNewName [''oldAction''] [''oldAction''] (Str ''oldAction'') = Null
   \<and> getNewName [''oldAction''] [''other''] (Str ''oldAction'') = Null"
  using getNewName_truth_table [of "[''helper'', ''newAction'']" "''oldAction''" "[]" "''oldAction''"]
        getNewName_truth_table [of "[''newAction'']" "''newAction''" "[]" "''oldAction''"]
        getNewName_truth_table [of "[''oldAction'']" "''oldAction''" "[]" "''oldAction''"]
        getNewName_truth_table [of "[''oldAction'']" "''other''" "[]" "''oldAction''"]
  by (simp add: Let_def)

subsection \<open>The running maximum picks the first highest score\<close>

lemma somes_simps [simp]:
  "somes [] = []" "somes (None # ss) = somes ss" "somes (Some v # ss) = v # somes ss"
  by (simp_all add: somes_def)

lemma Max_insert_above:
  fixes v :: "'a::linorder"
  assumes "finite S" "\<forall>w\<in>S. w \<le> v"
  shows "Max (insert v S) = v"
  using assms by (intro Max_eqI) auto

lemma Max_insert_below:
  fixes v :: "'a::linorder"
  assumes "finite S" "w \<in> S" "v < w"
  shows "Max (insert v S) = Max S" "Max S \<noteq> v"
proof -
  have ne: "S \<noteq> {}" using assms by auto
  have ge: "w \<le> Max S" using assms by simp
  then show "Max S \<noteq> v" using assms(3) by auto
  have "v \<le> Max S" using ge assms(3) by order
  then show "Max (insert v S) = Max S"
    using assms(1) ne by (simp add: max_def)
qed

lemma forEach_max_Some:
  "forEach_max ss k (Some m, Some j) =
     (if \<forall>v \<in> set (somes ss). v \<le> m then (Some m, Some j)
      else (Some (Max (set (somes ss))), Some (k + first_position (Some (Max (set (somes ss)))) ss)))"
proof (induction ss arbitrary: k m j)
  case Nil
  then show ?case by simp
next
  case (Cons s ss)
  let ?S = "set (somes ss)"
  show ?case
  proof (cases s)
    case None
    then show ?thesis using Cons.IH [of "Suc k" m j] by simp
  next
    case (Some v)
    show ?thesis
    proof (cases "v > m")
      case True
      note IH = Cons.IH [of "Suc k" v k]
      show ?thesis
      proof (cases "\<forall>w\<in>?S. w \<le> v")
        case all: True
        then have "Max (insert v ?S) = v" by (simp add: Max_insert_above)
        then show ?thesis using True Some IH all by auto
      next
        case False
        then obtain w where w: "w \<in> ?S" "v < w" by auto
        have "Max (insert v ?S) = Max ?S" "Max ?S \<noteq> v"
          using Max_insert_below [OF _ w] by simp_all
        then show ?thesis using True Some IH False by auto
      qed
    next
      case False
      note IH = Cons.IH [of "Suc k" m j]
      show ?thesis
      proof (cases "\<forall>w\<in>?S. w \<le> m")
        case all: True
        then show ?thesis using False Some IH by auto
      next
        case ex: False
        then obtain w where w: "w \<in> ?S" "v < w" using False by force
        have "Max (insert v ?S) = Max ?S" "Max ?S \<noteq> v"
          using Max_insert_below [OF _ w] by simp_all
        then show ?thesis using False Some IH ex by auto
      qed
    qed
  qed
qed

lemma forEach_max_None:
  "forEach_max ss k (None, None) =
     (if somes ss = [] then (None, None)
      else (Some (Max (set (somes ss))), Some (k + first_position (Some (Max (set (somes ss)))) ss)))"
proof (induction ss arbitrary: k)
  case Nil
  then show ?case by simp
next
  case (Cons s ss)
  let ?S = "set (somes ss)"
  show ?case
  proof (cases s)
    case None
    then show ?thesis using Cons.IH [of "Suc k"] by simp
  next
    case (Some v)
    show ?thesis
    proof (cases "\<forall>w\<in>?S. w \<le> v")
      case all: True
      then have "Max (insert v ?S) = v" by (simp add: Max_insert_above)
      then show ?thesis using Some all by (simp add: forEach_max_Some)
    next
      case False
      then obtain w where w: "w \<in> ?S" "v < w" by auto
      have "Max (insert v ?S) = Max ?S" "Max ?S \<noteq> v"
        using Max_insert_below [OF _ w] by simp_all
      then show ?thesis using Some False by (simp add: forEach_max_Some)
    qed
  qed
qed

lemma pick_eq_spec_best: "snd (forEach_max ss 0 (None, None)) = spec_best ss"
  by (simp add: forEach_max_None spec_best_def somes_def)

subsection \<open>The loop of \<open>functionChange\<close> is the greedy match\<close>

lemma spec_best_in_range: "spec_best ss = Some i \<Longrightarrow> i < length ss"
proof -
  have fp: "x \<in> set xs \<Longrightarrow> first_position x xs < length xs" for x :: "'b" and xs
    by (induction xs) auto
  assume a: "spec_best ss = Some i"
  then have ne: "somes ss \<noteq> []" by (auto simp: spec_best_def somes_def Let_def split: if_splits)
  then have "Max (set (somes ss)) \<in> set (somes ss)" by simp
  then have "Some (Max (set (somes ss))) \<in> set ss" by (auto simp: somes_def split: option.splits)
  then show ?thesis using a ne fp by (auto simp: spec_best_def somes_def Let_def split: if_splits)
qed

lemma rename_loop_spec:
  "rename_loop sim ds pool acc =
     (case spec_greedy sim ds pool of (rs, us, rest) \<Rightarrow> (rest, acc @ rs))"
proof (induction ds arbitrary: pool acc)
  case Nil
  then show ?case by simp
next
  case (Cons d ds)
  show ?case
  proof (cases "spec_best (map (\<lambda>f. sim (content f) (content d)) pool)")
    case None
    then show ?thesis by (simp add: pick_eq_spec_best Cons.IH split: prod.splits)
  next
    case (Some i)
    then show ?thesis by (simp add: pick_eq_spec_best Cons.IH splice1_def split: prod.splits)
  qed
qed

lemma spec_greedy_old_names:
  "spec_greedy sim ds pool = (rs, us, rest) \<Longrightarrow>
     set (map old_function_name rs) \<subseteq> set (map name ds)"
proof (induction ds arbitrary: pool rs us rest)
  case Nil
  then show ?case by simp
next
  case (Cons d ds)
  show ?case
  proof (cases "spec_best (map (\<lambda>a. sim (content a) (content d)) pool)")
    case None
    obtain rs' us' rest' where g: "spec_greedy sim ds pool = (rs', us', rest')"
      by (cases "spec_greedy sim ds pool") auto
    have "rs = rs'" using Cons.prems None g by simp
    then show ?thesis using Cons.IH [OF g] by auto
  next
    case (Some i)
    obtain rs' us' rest' where g: "spec_greedy sim ds (take i pool @ drop (Suc i) pool) = (rs', us', rest')"
      by (cases "spec_greedy sim ds (take i pool @ drop (Suc i) pool)") auto
    have "rs = \<lparr>old_function_name = name d, new_function_name = name (pool ! i),
                 renamed_by_symbol = False\<rparr> # rs'"
      using Cons.prems Some g by simp
    then show ?thesis using Cons.IH [OF g] by auto
  qed
qed

lemma spec_greedy_unmatched:
  "spec_greedy sim ds pool = (rs, us, rest) \<Longrightarrow> distinct (map name ds) \<Longrightarrow>
     filter (\<lambda>f. name f \<notin> set (map old_function_name rs)) ds = us"
proof (induction ds arbitrary: pool rs us rest)
  case Nil
  then show ?case by simp
next
  case (Cons d ds)
  have d_new: "name d \<notin> set (map name ds)" and dist: "distinct (map name ds)"
    using Cons.prems(2) by simp_all
  show ?case
  proof (cases "spec_best (map (\<lambda>a. sim (content a) (content d)) pool)")
    case None
    obtain rs' us' rest' where g: "spec_greedy sim ds pool = (rs', us', rest')"
      by (cases "spec_greedy sim ds pool") auto
    have eq: "rs = rs'" "us = d # us'" using Cons.prems(1) None g by simp_all
    have "name d \<notin> set (map old_function_name rs')"
      using spec_greedy_old_names [OF g] d_new by auto
    then show ?thesis using Cons.IH [OF g dist] eq by simp
  next
    case (Some i)
    obtain rs' us' rest' where g: "spec_greedy sim ds (take i pool @ drop (Suc i) pool) = (rs', us', rest')"
      by (cases "spec_greedy sim ds (take i pool @ drop (Suc i) pool)") auto
    have eq: "rs = \<lparr>old_function_name = name d, new_function_name = name (pool ! i),
                 renamed_by_symbol = False\<rparr> # rs'" "us = us'"
      using Cons.prems(1) Some g by simp_all
    have "filter (\<lambda>f. name f \<notin> set (map old_function_name rs)) ds =
          filter (\<lambda>f. name f \<notin> set (map old_function_name rs')) ds"
      using d_new eq by (intro filter_cong) (auto simp: image_iff)
    then show ?thesis using Cons.IH [OF g dist] eq by simp
  qed
qed

lemma spec_greedy_pool:
  "spec_greedy sim ds pool = (rs, us, rest) \<Longrightarrow>
     mset (map new_function_name rs) + mset (map name rest) = mset (map name pool)"
proof (induction ds arbitrary: pool rs us rest)
  case Nil
  then show ?case by simp
next
  case (Cons d ds)
  show ?case
  proof (cases "spec_best (map (\<lambda>a. sim (content a) (content d)) pool)")
    case None
    obtain rs' us' rest' where g: "spec_greedy sim ds pool = (rs', us', rest')"
      by (cases "spec_greedy sim ds pool") auto
    have "rs = rs'" "rest = rest'" using Cons.prems None g by simp_all
    then show ?thesis using Cons.IH [OF g] by simp
  next
    case (Some i)
    then have i: "i < length pool" using spec_best_in_range [OF Some] by simp
    obtain rs' us' rest' where g: "spec_greedy sim ds (take i pool @ drop (Suc i) pool) = (rs', us', rest')"
      by (cases "spec_greedy sim ds (take i pool @ drop (Suc i) pool)") auto
    have eq: "rs = \<lparr>old_function_name = name d, new_function_name = name (pool ! i),
                 renamed_by_symbol = False\<rparr> # rs'" "rest = rest'"
      using Cons.prems(1) Some g by simp_all
    have "mset (map name pool) = mset (map name (take i pool @ pool ! i # drop (Suc i) pool))"
      using id_take_nth_drop [OF i] by simp
    then show ?thesis using Cons.IH [OF g] eq by simp
  qed
qed

lemma first_position_nth:
  "x \<in> set xs \<Longrightarrow> xs ! first_position x xs = x \<and> (\<forall>j < first_position x xs. xs ! j \<noteq> x)"
proof (induction xs)
  case Nil
  then show ?case by simp
next
  case (Cons y ys)
  then show ?case by (auto simp: nth_Cons split: nat.splits)
qed

lemma spec_best_highest_first:
  assumes "spec_best ss = Some i"
  shows "i < length ss
       \<and> (\<exists>v. ss ! i = Some v
              \<and> (\<forall>j < length ss. \<forall>w. ss ! j = Some w \<longrightarrow> w \<le> v)
              \<and> (\<forall>j < i. ss ! j \<noteq> Some v))"
proof -
  let ?M = "Max (set (somes ss))"
  have ne: "somes ss \<noteq> []" and i: "i = first_position (Some ?M) ss"
    using assms by (auto simp: spec_best_def somes_def Let_def split: if_splits)
  have "?M \<in> set (somes ss)" using ne by simp
  then have mem: "Some ?M \<in> set ss" by (auto simp: somes_def split: option.splits)
  have le: "w \<le> ?M" if "j < length ss" "ss ! j = Some w" for j w
  proof -
    have "Some w \<in> set ss" using that by (metis nth_mem)
    then have "w \<in> set (somes ss)" by (force simp: somes_def)
    then show ?thesis by simp
  qed
  show ?thesis
    using first_position_nth [OF mem] le i spec_best_in_range [OF assms] by auto
qed

lemma spec_best_none: "spec_best ss = None \<longleftrightarrow> (\<forall>s \<in> set ss. s = None)"
proof -
  have "somes ss = [] \<longleftrightarrow> (\<forall>s \<in> set ss. s = None)"
    by (induction ss) (auto simp: somes_def split: option.splits)
  then show ?thesis by (simp add: spec_best_def somes_def Let_def)
qed

text \<open>
  Claim C2. For every baseline and current snapshot, \<open>functionChange\<close> computes the
  greedy match \<open>spec_greedy\<close>: the deleted entries are taken in their original order;
  each one is paired with the first entry of the remaining pool that holds the highest
  non-null score (\<open>spec_best\<close>), the pair is recorded as a rename and the candidate
  leaves the pool, so every added function is either renamed to once or left as an
  addition; the pool that is left becomes the additions, and the deleted names that no
  rename carries become the deletions, which are the unmatched deleted entries when the
  names of the baseline are distinct.
\<close>

theorem functionChange_greedy:
  "(let deleted = deleted0 (parse initial) (parse current);
        added = added0 (parse initial) (parse current);
        change = functionChange parse sim initial current
    in case spec_greedy sim deleted added of
         (rs, us, rest) \<Rightarrow>
           functions_to_rename change = rs
         \<and> functions_to_add change = map name rest
         \<and> functions_to_delete change =
               filter (\<lambda>n. n \<notin> set (map old_function_name rs)) (map name deleted)
         \<and> (distinct (map name (parse initial)) \<longrightarrow> functions_to_delete change = map name us)
         \<and> mset (map new_function_name rs) + mset (functions_to_add change)
               = mset (map name added))"
proof -
  let ?deleted = "deleted0 (parse initial) (parse current)"
  let ?added = "added0 (parse initial) (parse current)"
  obtain rs us rest where g: "spec_greedy sim ?deleted ?added = (rs, us, rest)"
    by (cases "spec_greedy sim ?deleted ?added") auto
  have loop: "rename_loop sim ?deleted ?added [] = (rest, rs)"
    by (simp add: rename_loop_spec g)
  have ex: "list_ex (\<lambda>rf. old_function_name rf = n) rs \<longleftrightarrow> n \<in> set (map old_function_name rs)" for n
    by (auto simp: list_ex_iff)
  have del: "functions_to_delete (functionChange parse sim initial current) =
             map name (filter (\<lambda>f. name f \<notin> set (map old_function_name rs)) ?deleted)"
    by (simp add: functionChange_def Let_def loop ex)
  have dist: "distinct (map name ?deleted)" if "distinct (map name (parse initial))"
    using that by (simp add: deleted0_def distinct_map_filter)
  have "functions_to_rename (functionChange parse sim initial current) = rs"
    by (simp add: functionChange_def Let_def loop)
  moreover have "functions_to_add (functionChange parse sim initial current) = map name rest"
    by (simp add: functionChange_def Let_def loop)
  moreover have "functions_to_delete (functionChange parse sim initial current) =
      filter (\<lambda>n. n \<notin> set (map old_function_name rs)) (map name ?deleted)"
    by (simp add: del filter_map comp_def)
  moreover have "distinct (map name (parse initial)) \<longrightarrow>
      functions_to_delete (functionChange parse sim initial current) = map name us"
    using spec_greedy_unmatched [OF g] dist del by simp
  moreover have "mset (map new_function_name rs) + mset (map name rest) = mset (map name ?added)"
    by (rule spec_greedy_pool [OF g])
  ultimately show ?thesis by (simp add: Let_def g)
qed

theorem functionChange_greedy_witness:
  "distinct (map name (example_parse ''baseline''))
   \<and> functionChange example_parse example_similarity ''baseline'' ''current'' =
       \<lparr>functions_to_rename =
          [\<lparr>old_function_name = ''A'', new_function_name = ''B2'', renamed_by_symbol = False\<rparr>,
           \<lparr>old_function_name = ''B'', new_function_name = ''A2'', renamed_by_symbol = False\<rparr>],
        functions_to_delete = [], functions_to_add = []\<rparr>"
  using functionChange_greedy [of example_parse "''baseline''" "''current''" example_similarity]
  by (simp add: Let_def example_parse_def example_similarity_def deleted0_def added0_def spec_best_def
        functionChange_def pick_eq_spec_best splice1_def)

subsection \<open>Commit\<close>

text \<open>
  Claim C3. For every file-state map, after \<open>setToSynced\<close> every record that is left
  has its original checksum equal to its current checksum and its old identifier name
  equal to its new one, and is not marked deleted; the records that are left are the
  ones that were not marked deleted, rebased; the baseline of the functions equals the
  current functions code, in the manager and in the snapshot file.
\<close>

theorem setToSynced_commit:
  "(case setToSynced env (um, w) of
      (um', w') \<Rightarrow>
        (\<forall>(key, fileInfo) \<in> set (fileMap um').
            original_checksum fileInfo = current_checksum fileInfo
          \<and> old_identifier_name fileInfo = new_identifier_name fileInfo
          \<and> \<not> is_deleted fileInfo)
      \<and> fileMap um' =
            map (\<lambda>(key, fileInfo).
                   (key, fileInfo\<lparr>original_checksum := current_checksum fileInfo,
                                   old_identifier_name := new_identifier_name fileInfo\<rparr>))
              (filter (\<lambda>(key, fileInfo). \<not> is_deleted fileInfo) (fileMap um))
      \<and> initialFunctionsCode um' = functionsCode um'
      \<and> functionsCode um' = functionsCode um
      \<and> files w' (path_join env [rootPath um, kCustomFunctionsSnapshotPath env])
            = Some (functionsCode um))"
proof -
  let ?sync = "\<lambda>(key :: string, fileInfo :: FileInfo).
                   (key, fileInfo\<lparr>original_checksum := current_checksum fileInfo,
                                   old_identifier_name := new_identifier_name fileInfo\<rparr>)"
  have swap: "filter (\<lambda>(_, fileInfo). \<not> is_deleted fileInfo) (map ?sync xs)
              = map ?sync (filter (\<lambda>(key, fileInfo). \<not> is_deleted fileInfo) xs)" for xs
    by (induction xs) auto
  show ?thesis
    by (auto simp: setToSynced_def Let_def swap writeFile_def persist_def)
qed

theorem setToSynced_commit_witness:
  "fileMap (fst (setToSynced example_env (example_manager, example_world))) =
     [(''foo.dart'',
       \<lparr>old_identifier_name = Str ''oldAction'', new_identifier_name = Str ''oldAction'',
        type = ACTION, is_deleted = False,
        original_checksum = None, current_checksum = None\<rparr>),
      (''bar.dart'',
       \<lparr>old_identifier_name = Str ''Bar2'', new_identifier_name = Str ''Bar2'',
        type = WIDGET, is_deleted = False,
        original_checksum = Some ''sha256:y'', current_checksum = Some ''sha256:y''\<rparr>)]
   \<and> initialFunctionsCode (fst (setToSynced example_env (example_manager, example_world))) = ''f2''"
  using setToSynced_commit [where env = example_env and um = example_manager and w = example_world]
  by (simp add: setToSynced_def example_manager_def Let_def split: prod.splits)

subsection \<open>Update with an unchanged checksum\<close>

text \<open>
  Claim C5. For a tracked record (and a manager that is not paused), \<open>updateFile\<close> first
  writes the fresh checksum of the file into \<open>current_checksum\<close>; when that equals
  \<open>original_checksum\<close> it returns the record at once: the identifier names and the two
  indexes are as before (no rename inference), and the world is as before (no index
  file rewritten, no file map persisted, no notification).
\<close>

theorem updateFile_unchanged_checksum:
  assumes "\<not> paused um"
    and "map_of (fileMap um) (path_basename env filePath) = Some fileInfo"
    and "computeChecksum env w filePath = Inr checksum"
    and "original_checksum fileInfo = Some checksum"
  shows "updateFile env filePath (um, w) =
           (Returned (Some (fileInfo\<lparr>current_checksum := Some checksum\<rparr>)),
            um\<lparr>fileMap := AList.update (path_basename env filePath)
                             (fileInfo\<lparr>current_checksum := Some checksum\<rparr>) (fileMap um)\<rparr>,
            w)"
  using assms by (simp add: updateFile_def Let_def store_def)

theorem updateFile_unchanged_checksum_witness:
  "\<not> paused example_manager
   \<and> computeChecksum example_env example_world ''/p/lib/custom_code/actions/foo.dart'' = Inr ''sha256:newAction''
   \<and> updateFile example_env ''/p/lib/custom_code/actions/foo.dart'' (example_manager, example_world) =
       (Returned (Some \<lparr>old_identifier_name = Str ''oldAction'', new_identifier_name = Str ''oldAction'',
           type = ACTION, is_deleted = False,
           original_checksum = Some ''sha256:newAction'', current_checksum = Some ''sha256:newAction''\<rparr>),
        example_manager\<lparr>fileMap := AList.update ''foo.dart''
            \<lparr>old_identifier_name = Str ''oldAction'', new_identifier_name = Str ''oldAction'',
           type = ACTION, is_deleted = False,
           original_checksum = Some ''sha256:newAction'', current_checksum = Some ''sha256:newAction''\<rparr>
            (fileMap example_manager)\<rparr>,
        example_world)"
proof -
  have p: "\<not> paused example_manager" by (simp add: example_manager_def)
  have b: "path_basename example_env ''/p/lib/custom_code/actions/foo.dart'' = ''foo.dart''"
    by (simp add: example_env_def)
  have m: "map_of (fileMap example_manager) (path_basename example_env ''/p/lib/custom_code/actions/foo.dart'')
      = Some \<lparr>old_identifier_name = Str ''oldAction'', new_identifier_name = Str ''oldAction'',
           type = ACTION, is_deleted = False,
           original_checksum = Some ''sha256:newAction'', current_checksum = None\<rparr>"
    by (simp add: b) (simp add: example_manager_def)
  have c: "computeChecksum example_env example_world ''/p/lib/custom_code/actions/foo.dart'' = Inr ''sha256:newAction''"
    by (simp add: computeChecksum_def readFile_def example_world_def example_disk_def example_env_def)
  show ?thesis
    using updateFile_unchanged_checksum [OF p m c] p c by (simp add: b)
qed

subsection \<open>The paused manager\<close>

text \<open>
  Claim C9. While \<open>paused\<close> is set, \<open>addFile\<close>, \<open>updateFile\<close> and \<open>deleteFile\<close> return
  \<open>null\<close> and leave the manager (file map, both indexes) and the world (index files,
  persisted file map, notifications) as they were; nothing is kept of the event, so
  after \<open>resume\<close> the manager is the one before the event with the flag cleared.
\<close>

theorem paused_is_noop:
  assumes "paused um"
  shows "addFile env filePath (um, w) = (Returned None, um, w)
       \<and> updateFile env filePath (um, w) = (Returned None, um, w)
       \<and> deleteFile env filePath (um, w) = (Returned None, um, w)
       \<and> resume (fst (snd (addFile env filePath (um, w)))) = um\<lparr>paused := False\<rparr>
       \<and> resume (fst (snd (updateFile env filePath (um, w)))) = um\<lparr>paused := False\<rparr>
       \<and> resume (fst (snd (deleteFile env filePath (um, w)))) = um\<lparr>paused := False\<rparr>"
  using assms by (simp add: addFile_def updateFile_def deleteFile_def resume_def)

theorem paused_is_noop_witness:
  "paused (pause example_manager)
   \<and> addFile example_env ''/p/lib/custom_code/widgets/foo.dart'' (pause example_manager, example_world)
       = (Returned None, pause example_manager, example_world)
   \<and> updateFile example_env ''/p/lib/custom_code/actions/foo.dart'' (pause example_manager, example_world)
       = (Returned None, pause example_manager, example_world)
   \<and> deleteFile example_env ''/p/lib/custom_code/actions/foo.dart'' (pause example_manager, example_world)
       = (Returned None, pause example_manager, example_world)
   \<and> resume (fst (snd (deleteFile example_env ''/p/lib/custom_code/actions/foo.dart''
                         (pause example_manager, example_world)))) = example_manager"
proof -
  have p: "paused (pause example_manager)" by (simp add: pause_def)
  have r: "(pause example_manager)\<lparr>paused := False\<rparr> = example_manager"
    by (simp add: pause_def example_manager_def)
  show ?thesis
    using p r
      paused_is_noop [OF p, where env = example_env and w = example_world
                        and filePath = "''/p/lib/custom_code/widgets/foo.dart''"]
      paused_is_noop [OF p, where env = example_env and w = example_world
                        and filePath = "''/p/lib/custom_code/actions/foo.dart''"]
    by (simp add: resume_def)
qed

subsection \<open>Delete and rename of an untracked file\<close>

text \<open>
  Claim C10. For a path whose base name has no record in the file map, \<open>deleteFile\<close>
  (for a path that is not classified as the functions file) and \<open>renameFile\<close> return
  \<open>null\<close> and leave the manager and the world as they were: file map, both indexes,
  index files and persisted file map unchanged, no notification.
\<close>

theorem untracked_delete_rename_noop:
  "(pathToCodeType env filePath \<noteq> FUNCTION
      \<and> map_of (fileMap um) (path_basename env filePath) = None
      \<longrightarrow> deleteFile env filePath (um, w) = (Returned None, um, w))
 \<and> (map_of (fileMap um) (path_basename env oldFilePath) = None
      \<longrightarrow> renameFile env oldFilePath newFilePath (um, w) = (Returned None, um, w))"
  by (simp add: deleteFile_def renameFile_def Let_def)

theorem untracked_delete_rename_noop_witness:
  "pathToCodeType example_env ''/p/lib/custom_code/actions/none.dart'' \<noteq> FUNCTION
   \<and> map_of (fileMap example_manager) (path_basename example_env ''/p/lib/custom_code/actions/none.dart'') = None
   \<and> deleteFile example_env ''/p/lib/custom_code/actions/none.dart'' (example_manager, example_world)
       = (Returned None, example_manager, example_world)
   \<and> renameFile example_env ''/p/lib/custom_code/actions/none.dart'' ''/p/lib/custom_code/actions/some.dart''
         (example_manager, example_world)
       = (Returned None, example_manager, example_world)"
proof -
  have t: "pathToCodeType example_env ''/p/lib/custom_code/actions/none.dart'' \<noteq> FUNCTION"
    by (simp add: example_env_def example_codeType_def startsWith_def)
  have b: "path_basename example_env ''/p/lib/custom_code/actions/none.dart'' = ''none.dart''"
    by (simp add: example_env_def)
  have m: "map_of (fileMap example_manager) (path_basename example_env ''/p/lib/custom_code/actions/none.dart'') = None"
    by (simp add: b) (simp add: example_manager_def)
  show ?thesis
    using t m
      untracked_delete_rename_noop [where env = example_env and um = example_manager
         and w = example_world and filePath = "''/p/lib/custom_code/actions/none.dart''"
         and oldFilePath = "''/p/lib/custom_code/actions/none.dart''"
         and newFilePath = "''/p/lib/custom_code/actions/some.dart''"]
    by simp
qed

subsection \<open>Decoding the sync response\<close>

lemma update_fresh_key: "key \<notin> fst ` set entries \<Longrightarrow> AList.update key v entries = entries @ [(key, v)]"
  by (induction entries) auto

lemma fold_update_distinct:
  "distinct (map fst (acc @ entries)) \<Longrightarrow>
     fold (\<lambda>(key, v). AList.update key v) entries acc = acc @ entries"
proof (induction entries arbitrary: acc)
  case Nil
  then show ?case by simp
next
  case (Cons e entries)
  obtain key v where e: "e = (key, v)" by (cases e)
  have fresh: "key \<notin> fst ` set acc" using Cons.prems e by auto
  have "distinct (map fst ((acc @ [(key, v)]) @ entries))" using Cons.prems e by auto
  then show ?case using Cons.IH [of "acc @ [(key, v)]"] e by (simp add: update_fresh_key [OF fresh])
qed

lemma new_Map_distinct: "distinct (map fst entries) \<Longrightarrow> new_Map entries = entries"
  using fold_update_distinct [of "[]" entries] by (simp add: new_Map_def)

text \<open>
  Claim C4. A response whose body does not parse fails with the raw text of the body as
  the message of the error. A non-success response whose body parses to a document (an
  object) gives that whole document as the mapping from file names to warnings. A
  success response whose body parses to an envelope with a \<open>value\<close> text gives the
  document that this text parses to. Both paths give the same result for the same
  document text.
\<close>

theorem parseSyncCodeResponse_decoding:
  "(JSON_parse (body response) = None
      \<longrightarrow> parseSyncCodeResponse JSON_parse String_of response = Inl (Error (body response)))
 \<and> (\<not> ok response \<and> JSON_parse (body response) = Some (JObject warnings)
      \<and> distinct (map fst warnings)
      \<longrightarrow> parseSyncCodeResponse JSON_parse String_of response = Inr warnings)
 \<and> (ok response \<and> JSON_parse (body response) = Some (JObject envelope)
      \<and> map_of envelope ''value'' = Some (JString inner)
      \<and> JSON_parse inner = Some (JObject warnings) \<and> distinct (map fst warnings)
      \<longrightarrow> parseSyncCodeResponse JSON_parse String_of response = Inr warnings)
 \<and> (ok response \<and> JSON_parse (body response) = Some (JObject envelope)
      \<and> map_of envelope ''value'' = Some (JString inner)
      \<and> JSON_parse inner \<noteq> None \<and> \<not> ok failure \<and> body failure = inner
      \<longrightarrow> parseSyncCodeResponse JSON_parse String_of response
            = parseSyncCodeResponse JSON_parse String_of failure)"
  by (auto simp: parseSyncCodeResponse_def new_Map_distinct)

theorem parseSyncCodeResponse_decoding_witness:
  "parseSyncCodeResponse example_JSON_parse example_String_of \<lparr>ok = False, body = example_failure_body\<rparr>
     = Inr [(''foo.dart'', JArray [JObject [(''message'', JString ''bad'')]])]
   \<and> parseSyncCodeResponse example_JSON_parse example_String_of \<lparr>ok = True, body = example_success_body\<rparr>
     = Inr [(''foo.dart'', JArray [])]
   \<and> parseSyncCodeResponse example_JSON_parse example_String_of \<lparr>ok = True, body = ''<html>''\<rparr>
     = Inl (Error ''<html>'')"
  using parseSyncCodeResponse_decoding [where JSON_parse = example_JSON_parse
          and String_of = example_String_of
          and response = "\<lparr>ok = False, body = example_failure_body\<rparr>"
          and warnings = "[(''foo.dart'', JArray [JObject [(''message'', JString ''bad'')]])]"]
        parseSyncCodeResponse_decoding [where JSON_parse = example_JSON_parse
          and String_of = example_String_of
          and response = "\<lparr>ok = True, body = example_success_body\<rparr>"
          and envelope = "[(''value'', JString ''{\"foo.dart\":[]}'')]"
          and inner = "''{\"foo.dart\":[]}''"
          and warnings = "[(''foo.dart'', JArray [])]"]
        parseSyncCodeResponse_decoding [where JSON_parse = example_JSON_parse
          and String_of = example_String_of
          and response = "\<lparr>ok = True, body = ''<html>''\<rparr>"]
  by (simp add: example_JSON_parse_def example_failure_body_def example_success_body_def)

subsection \<open>Loading without index documents\<close>

text \<open>
  Claim C6, as the code has it. When the index document of the actions does not exist,
  \<open>deserializeUpdateManager\<close> raises the failed read (it logs and rethrows) and builds
  no manager. When neither index document exists, the guarded index reads of \<open>refresh\<close>
  leave the manager with an empty action index and an empty widget index, and nothing is
  written.
\<close>

theorem load_without_index_documents:
  "(files w (actionsIndexPath env projectPath) = None
      \<longrightarrow> deserializeUpdateManager env projectPath w
            = Inl (ENOENT (actionsIndexPath env projectPath)))
 \<and> (files w (actionsIndexPath env (rootPath um)) = None
      \<and> files w (widgetsIndexPath env (rootPath um)) = None
      \<longrightarrow> actionIndex (fst (snd (refresh env (um, w)))) = []
        \<and> widgetIndex (fst (snd (refresh env (um, w)))) = []
        \<and> snd (snd (refresh env (um, w))) = w)"
  by (auto simp: deserializeUpdateManager_def refresh_def readFile_def readIndexOrEmpty_def
        Let_def split: sum.splits)

theorem load_without_index_documents_witness:
  "files empty_world (actionsIndexPath example_env ''/p'') = None
   \<and> files empty_world (widgetsIndexPath example_env ''/p'') = None
   \<and> deserializeUpdateManager example_env ''/p'' empty_world
       = Inl (ENOENT ''/p/lib/custom_code/actions/index.dart'')
   \<and> actionIndex (fst (snd (refresh example_env (example_manager, empty_world)))) = []
   \<and> widgetIndex (fst (snd (refresh example_env (example_manager, empty_world)))) = []"
proof -
  have r: "rootPath example_manager = ''/p''" by (simp add: example_manager_def)
  have a: "actionsIndexPath example_env ''/p'' = ''/p/lib/custom_code/actions/index.dart''"
    by (simp add: actionsIndexPath_def example_env_def)
  have f: "files empty_world p = None" for p by (simp add: empty_world_def)
  show ?thesis
    using load_without_index_documents [where env = example_env and w = empty_world
            and projectPath = "''/p''" and um = example_manager]
    by (simp add: r f a)
qed

text \<open>
  In a project directory without any file, \<open>deserializeUpdateManager\<close> does not yield a
  manager with empty indexes: it raises. So does \<open>refresh\<close>, from \<open>computeFileMap\<close>.
\<close>

theorem load_without_index_documents_counterexample:
  "deserializeUpdateManager example_env ''/p'' empty_world
     = Inl (ENOENT ''/p/lib/custom_code/actions/index.dart'')
   \<and> fst (refresh example_env (example_manager, empty_world))
     = Threw (ENOENT ''/p/lib/custom_code/actions/index.dart'')"
  by (simp add: deserializeUpdateManager_def refresh_def computeFileMap_def readFile_def
        empty_world_def actionsIndexPath_def widgetsIndexPath_def example_env_def
        example_manager_def readIndexOrEmpty_def Let_def)

subsection \<open>Checksums after loading\<close>

lemma verifyChecksums_entries:
  "verifyChecksums env projectPath w loaded = Inr verified \<Longrightarrow>
     list_all2 (verified_entry env projectPath w) loaded verified"
proof (induction loaded arbitrary: verified)
  case Nil
  then show ?case by simp
next
  case (Cons entry loaded)
  obtain key fileInfo where entry: "entry = (key, fileInfo)" by (cases entry)
  let ?backfill = "falsy (original_checksum fileInfo) \<and> falsy (current_checksum fileInfo)"
  note prems = Cons.prems [unfolded entry]
  show ?case
  proof (cases "verifyChecksums env projectPath w loaded")
    case (Inl e)
    then show ?thesis using prems by (simp split: if_splits sum.splits)
  next
    case (Inr rest)
    note IH = Cons.IH [OF Inr]
    show ?thesis
    proof (cases ?backfill)
      case True
      show ?thesis
      proof (cases "computeChecksum env w (fullPath env projectPath key fileInfo)")
        case (Inl e)
        then show ?thesis using prems True by simp
      next
        case c: (Inr checksum)
        have "verified = (key, fileInfo\<lparr>original_checksum := Some checksum,
                                          current_checksum := Some checksum\<rparr>) # rest"
          using prems True c Inr by simp
        moreover have "verified_entry env projectPath w (key, fileInfo)
                         (key, fileInfo\<lparr>original_checksum := Some checksum,
                                           current_checksum := Some checksum\<rparr>)"
          using True c by (simp add: verified_entry_def)
        ultimately show ?thesis using IH by (simp add: entry)
      qed
    next
      case False
      have "verified = (key, fileInfo) # rest" using prems False Inr by auto
      moreover have "verified_entry env projectPath w (key, fileInfo) (key, fileInfo)"
        using False by (auto simp add: verified_entry_def)
      ultimately show ?thesis using IH by (simp add: entry)
    qed
  qed
qed

lemma verified_entry_present:
  "verified_entry env projectPath w loaded verified \<Longrightarrow>
     original_checksum (snd verified) \<noteq> None \<or> current_checksum (snd verified) \<noteq> None"
  by (auto simp: verified_entry_def falsy_def split: if_splits sum.splits)

text \<open>
  Claim C7, as the code has it. After a successful \<open>deserializeUpdateManager\<close>, the file
  map is the loaded one, entry by entry: an entry that was loaded without any checksum
  has both checksums set to the hash of its file, and every other entry is as it was
  loaded (an entry loaded with one checksum only keeps the other one missing). Hence
  every entry has at least one checksum.
\<close>

theorem deserialize_checksums:
  assumes "deserializeUpdateManager env projectPath w = Inr (um, w')"
  shows "(case loadedFileMap env projectPath w of
            Inl e \<Rightarrow> False
          | Inr loaded \<Rightarrow> list_all2 (verified_entry env projectPath w) loaded (fileMap um))
       \<and> (\<forall>(key, fileInfo) \<in> set (fileMap um).
             original_checksum fileInfo \<noteq> None \<or> current_checksum fileInfo \<noteq> None)"
proof -
  obtain loaded where l: "loadedFileMap env projectPath w = Inr loaded"
    and v: "verifyChecksums env projectPath w loaded = Inr (fileMap um)"
    using assms by (auto simp: deserializeUpdateManager_def Let_def split: sum.splits if_splits)
  have all2: "list_all2 (verified_entry env projectPath w) loaded (fileMap um)"
    by (rule verifyChecksums_entries [OF v])
  have "original_checksum (snd entry) \<noteq> None \<or> current_checksum (snd entry) \<noteq> None"
    if mem: "entry \<in> set (fileMap um)" for entry
  proof -
    obtain i where "i < length (fileMap um)" "fileMap um ! i = entry"
      using mem by (auto simp: in_set_conv_nth)
    then have "verified_entry env projectPath w (loaded ! i) entry"
      using all2 by (auto simp: list_all2_conv_all_nth)
    then show ?thesis by (rule verified_entry_present)
  qed
  then have "\<forall>(key, fileInfo) \<in> set (fileMap um).
               original_checksum fileInfo \<noteq> None \<or> current_checksum fileInfo \<noteq> None"
    by fastforce
  then show ?thesis using l all2 by simp
qed

theorem deserialize_checksums_witness:
  "deserializeUpdateManager example_env ''/p'' example_world
     = Inr (example_loaded, persist example_env example_loaded example_world)
   \<and> loadedFileMap example_env ''/p'' example_world = Inr example_snapshot
   \<and> list_all2 (verified_entry example_env ''/p'' example_world) example_snapshot
         (fileMap example_loaded)"
proof -
  have d: "deserializeUpdateManager example_env ''/p'' example_world
             = Inr (example_loaded, persist example_env example_loaded example_world)"
    by (simp add: deserializeUpdateManager_def loadedFileMap_def readFile_def existsSync_def
          example_world_def example_disk_def actionsIndexPath_def widgetsIndexPath_def
          customFunctionsPath_def kCustomFunctionsSnapshotPath_def example_env_def
          example_snapshot_def parseIndexFile_def falsy_def computeChecksum_def fullPath_def
          example_loaded_def Let_def)
  have l: "loadedFileMap example_env ''/p'' example_world = Inr example_snapshot"
    by (simp add: loadedFileMap_def existsSync_def example_world_def example_disk_def
          example_env_def example_snapshot_def)
  show ?thesis using deserialize_checksums [OF d] d l by simp
qed

text \<open>
  A persisted entry with a current checksum and no original checksum (a file added and
  edited since the last commit) is loaded as it is: its original checksum stays absent.
\<close>

theorem deserialize_checksums_counterexample:
  "map_sum id (fileMap \<circ> fst) (deserializeUpdateManager example_env ''/p'' example_world) =
     Inr [(''foo.dart'',
           \<lparr>old_identifier_name = Str ''oldAction'', new_identifier_name = Str ''oldAction'',
            type = ACTION, is_deleted = False,
            original_checksum = None, current_checksum = Some ''sha256:newAction''\<rparr>),
          (''pubspec.yaml'',
           \<lparr>old_identifier_name = Str ''pubspec.yaml'', new_identifier_name = Str ''pubspec.yaml'',
            type = DEPENDENCIES, is_deleted = False,
            original_checksum = Some ''sha256:name: p'', current_checksum = Some ''sha256:name: p''\<rparr>)]"
  by (simp add: deserializeUpdateManager_def loadedFileMap_def readFile_def existsSync_def
        example_world_def example_disk_def actionsIndexPath_def widgetsIndexPath_def
        customFunctionsPath_def kCustomFunctionsSnapshotPath_def example_env_def
        example_snapshot_def parseIndexFile_def falsy_def computeChecksum_def fullPath_def
        Let_def)

subsection \<open>The category of a record\<close>

lemma map_of_categories:
  "map_of (map (\<lambda>(key, fileInfo). (key, type fileInfo)) entries) k = map_option type (map_of entries k)"
  by (induction entries) auto

lemma category_at_categories: "category_at um key = map_of (categories um) key"
  by (simp add: category_at_def categories_def map_of_categories)

lemma category_at_store:
  "category_at (store k fileInfo um) key = (if key = k then Some (type fileInfo) else category_at um key)"
  by (simp add: category_at_def store_def update_conv')

lemma update_same_category:
  "map_of entries k = Some fileInfo0 \<Longrightarrow> type fileInfo = type fileInfo0 \<Longrightarrow>
     map (\<lambda>(key, fileInfo). (key, type fileInfo)) (AList.update k fileInfo entries)
       = map (\<lambda>(key, fileInfo). (key, type fileInfo)) entries"
  by (induction entries) (auto split: if_splits)

lemma categories_restore:
  assumes "map_of (fileMap um) k = Some fileInfo0" "type fileInfo = type fileInfo0"
    and "fileMap um' = fileMap um"
  shows "categories (store k fileInfo um') = categories um"
  using assms by (simp add: categories_def store_def update_same_category)

lemma inferRename_keeps:
  assumes "inferRename env baseName codeType names fileInfo um w = (fileInfo', um', w')"
  shows "fileMap um' = fileMap um \<and> type fileInfo' = type fileInfo"
  using assms by (auto simp: inferRename_def Let_def split: if_splits)

lemma updateActionOrWidget_keeps:
  assumes "updateActionOrWidget env filePath baseName codeType fileInfo um w = Inr (fileInfo', um', w')"
  shows "fileMap um' = fileMap um \<and> type fileInfo' = type fileInfo"
proof (cases "codeType = ACTION \<or> codeType = WIDGET")
  case True
  then obtain names where "inferRename env baseName codeType names fileInfo um w = (fileInfo', um', w')"
    using assms by (auto simp: updateActionOrWidget_def split: sum.splits)
  then show ?thesis by (rule inferRename_keeps)
next
  case False
  then show ?thesis using assms by (simp add: updateActionOrWidget_def)
qed

lemma updateFile_categories:
  "categories (fst (snd (updateFile env filePath (um, w)))) = categories um"
proof (cases "paused um")
  case True
  then show ?thesis by (simp add: updateFile_def)
next
  case np: False
  let ?b = "path_basename env filePath"
  show ?thesis
  proof (cases "map_of (fileMap um) ?b")
    case None
    then show ?thesis using np by (simp add: updateFile_def)
  next
    case (Some fileInfo0)
    show ?thesis
    proof (cases "computeChecksum env w filePath")
      case (Inl e)
      then show ?thesis using np Some by (simp add: updateFile_def)
    next
      case (Inr checksum)
      let ?f1 = "fileInfo0\<lparr>current_checksum := Some checksum\<rparr>"
      let ?f2 = "?f1\<lparr>is_deleted := False\<rparr>"
      show ?thesis
      proof (cases "Some checksum = original_checksum fileInfo0")
        case True
        then show ?thesis using np Some Inr
          by (simp add: updateFile_def Let_def categories_restore [OF Some])
      next
        case ne: False
        show ?thesis
        proof (cases "updateActionOrWidget env filePath ?b (pathToCodeType env filePath) ?f2 um w")
          case (Inl e)
          then show ?thesis using np Some Inr ne
            by (simp add: updateFile_def Let_def categories_restore [OF Some])
        next
          case r: (Inr result)
          obtain fileInfo3 um3 w3 where result: "result = (fileInfo3, um3, w3)" by (cases result)
          have keep: "fileMap um3 = fileMap um" "type fileInfo3 = type fileInfo0"
            using updateActionOrWidget_keeps [OF r [unfolded result]] by simp_all
          show ?thesis
          proof (cases "updateFunctions env (pathToCodeType env filePath) um3 w3")
            case (Inl e)
            then show ?thesis using np Some Inr ne r result
              by (simp add: updateFile_def Let_def categories_restore [OF Some keep(2) keep(1)])
          next
            case c: (Inr code)
            have "fileMap (um3\<lparr>functionsCode := code\<rparr>) = fileMap um" using keep by simp
            then show ?thesis using np Some Inr ne r result c
              by (simp add: updateFile_def Let_def categories_restore [OF Some keep(2)])
          qed
        qed
      qed
    qed
  qed
qed

lemma deleteFile_categories:
  "categories (fst (snd (deleteFile env filePath (um, w)))) = categories um"
proof (cases "map_of (fileMap um) (path_basename env filePath)")
  case None
  then show ?thesis by (simp add: deleteFile_def Let_def)
next
  case (Some fileInfo0)
  have "categories (store (path_basename env filePath) (fileInfo0\<lparr>is_deleted := True\<rparr>) um)
        = categories um"
    by (rule categories_restore [OF Some]) simp_all
  then show ?thesis using Some
    by (simp add: deleteFile_def Let_def categories_def split: prod.splits)
qed

lemma addFile_category:
  assumes "\<not> binds_record env (Add filePath) um key"
  shows "category_at (fst (snd (addFile env filePath (um, w)))) key = category_at um key"
proof (cases "paused um")
  case True
  then show ?thesis by (simp add: addFile_def)
next
  case np: False
  show ?thesis
  proof (cases "readFile w filePath")
    case (Inl e)
    then show ?thesis using np by (simp add: addFile_def Let_def)
  next
    case (Inr fileText)
    show ?thesis
    proof (cases "if length fileText = 0 then insertBoilerplate env filePath um w else Inr w")
      case (Inl e)
      then show ?thesis using np Inr by (simp add: addFile_def Let_def)
    next
      case w1: (Inr w1)
      show ?thesis
      proof (cases "sameCategoryExists env um filePath")
        case True
        then show ?thesis using np Inr w1
          by (simp add: addFile_def Let_def category_at_categories updateFile_categories)
      next
        case False
        then have "newFileKey env um filePath \<noteq> key" using assms np by simp
        then have "category_at (store (newFileKey env um filePath) (newFileInfo env filePath) um) key
                   = category_at um key"
          by (simp add: category_at_store)
        then show ?thesis using np Inr w1 False
          by (simp add: addFile_def Let_def category_at_def split: prod.splits)
      qed
    qed
  qed
qed

lemma renameFile_category:
  assumes "\<not> binds_record env (Rename oldFilePath newFilePath) um key"
  shows "category_at (fst (snd (renameFile env oldFilePath newFilePath (um, w)))) key = None
       \<or> category_at (fst (snd (renameFile env oldFilePath newFilePath (um, w)))) key = category_at um key"
proof (cases "paused um \<or> map_of (fileMap um) (path_basename env oldFilePath) = None")
  case True
  then show ?thesis by (auto simp: renameFile_def Let_def)
next
  case False
  then have "path_basename env newFilePath \<noteq> key" using assms by auto
  then show ?thesis using False
    by (auto simp: renameFile_def Let_def category_at_def delete_conv' update_conv')
qed

lemma apply_operation_category:
  assumes "\<not> binds_record env operation um key"
  shows "category_at (fst (apply_operation env operation (um, w))) key = None
       \<or> category_at (fst (apply_operation env operation (um, w))) key = category_at um key"
proof (cases operation)
  case (Add filePath)
  then show ?thesis using addFile_category [of env filePath um key w] assms by simp
next
  case (Update filePath)
  then show ?thesis by (simp add: category_at_categories updateFile_categories)
next
  case (Delete filePath)
  then show ?thesis by (simp add: category_at_categories deleteFile_categories)
next
  case (Rename oldFilePath newFilePath)
  then show ?thesis using renameFile_category [of env oldFilePath newFilePath um key w] assms by simp
qed

lemma run_category:
  "same_record env key operations s \<Longrightarrow>
     category_at (fst (run env operations s)) key = None
   \<or> category_at (fst (run env operations s)) key = category_at (fst s) key"
proof (induction operations arbitrary: s)
  case Nil
  then show ?case by simp
next
  case (Cons operation operations)
  obtain um w where s: "s = (um, w)" by (cases s)
  let ?s' = "apply_operation env operation s"
  have nb: "\<not> binds_record env operation um key" and rest: "same_record env key operations ?s'"
    using Cons.prems s by simp_all
  have step: "category_at (fst ?s') key = None \<or> category_at (fst ?s') key = category_at um key"
    using apply_operation_category [OF nb] s by simp
  have none: "category_at (fst (run env operations t)) key = None"
    if "same_record env key operations t" "category_at (fst t) key = None" for t
    using Cons.IH [OF that(1)] that(2) by auto
  show ?case
  proof (cases "category_at (fst ?s') key = None")
    case True
    then show ?thesis using none [OF rest] by simp
  next
    case False
    with step have "category_at (fst ?s') key = category_at um key"
      by (elim disjE) simp_all
    then show ?thesis using Cons.IH [OF rest] s by simp
  qed
qed

text \<open>
  Claim C8. For every key and every sequence of add, update, delete and rename events
  during which no other record is put under the key (no add creates a record there, no
  rename moves one there), a record found under the key afterwards has the category of
  the record that was there before: no event writes the category of a record. Update
  and delete keep the category under every key. An add for a base name that has a
  record of the category of the path is the update of that path, and creates no record.
  A rename carries the record unchanged to its new key.
\<close>

theorem category_fixed_at_creation:
  "(same_record env key operations (um, w)
      \<and> map_of (fileMap um) key = Some fileInfo
      \<and> map_of (fileMap (fst (run env operations (um, w)))) key = Some fileInfo'
      \<longrightarrow> type fileInfo' = type fileInfo)
 \<and> categories (fst (snd (updateFile env filePath (um, w)))) = categories um
 \<and> categories (fst (snd (deleteFile env filePath (um, w)))) = categories um
 \<and> (\<not> paused um \<and> sameCategoryExists env um filePath
      \<and> readFile w filePath = Inr fileText
      \<and> (if length fileText = 0 then insertBoilerplate env filePath um w else Inr w) = Inr w1
      \<longrightarrow> addFile env filePath (um, w) = updateFile env filePath (um, w1)
        \<and> categories (fst (snd (addFile env filePath (um, w)))) = categories um)
 \<and> (\<not> paused um \<and> map_of (fileMap um) (path_basename env oldFilePath) = Some moved
      \<and> path_basename env newFilePath \<noteq> path_basename env oldFilePath
      \<longrightarrow> map_of (fileMap (fst (snd (renameFile env oldFilePath newFilePath (um, w)))))
            (path_basename env newFilePath) = Some moved)"
proof -
  have seq: "type fileInfo' = type fileInfo"
    if "same_record env key operations (um, w)" "map_of (fileMap um) key = Some fileInfo"
       "map_of (fileMap (fst (run env operations (um, w)))) key = Some fileInfo'"
    using run_category [OF that(1)] that(2,3) by (simp add: category_at_def)
  have add: "addFile env filePath (um, w) = updateFile env filePath (um, w1)"
    if "\<not> paused um" "sameCategoryExists env um filePath" "readFile w filePath = Inr fileText"
       "(if length fileText = 0 then insertBoilerplate env filePath um w else Inr w) = Inr w1"
    using that by (simp add: addFile_def Let_def)
  have ren: "map_of (fileMap (fst (snd (renameFile env oldFilePath newFilePath (um, w)))))
               (path_basename env newFilePath) = Some moved"
    if "\<not> paused um" "map_of (fileMap um) (path_basename env oldFilePath) = Some moved"
       "path_basename env newFilePath \<noteq> path_basename env oldFilePath"
    using that by (simp add: renameFile_def Let_def delete_conv' update_conv')
  show ?thesis
    using seq add ren by (simp add: updateFile_categories deleteFile_categories)
qed

lemmas ex_defs = example_env_def example_manager_def example_world_def example_disk_def
  example_codeType_def example_writeFileMap_def startsWith_def endsWith_def
  updateFile_def deleteFile_def addFile_def renameFile_def sameCategoryExists_def
  newFileKey_def newFileInfo_def impliedName_def store_def persist_def emit_def
  saveIndexFile_def writeFile_def readFile_def computeChecksum_def fullPath_def
  actionsIndexPath_def widgetsIndexPath_def Let_def

theorem category_fixed_at_creation_witness:
  "same_record example_env ''foo.dart''
     [Update ''/p/lib/custom_code/actions/foo.dart'',
      Delete ''/p/lib/custom_code/actions/foo.dart'',
      Add ''/p/lib/custom_code/actions/foo.dart'']
     (example_manager, example_world)
   \<and> map_option type
        (map_of (fileMap (fst (run example_env
           [Update ''/p/lib/custom_code/actions/foo.dart'',
            Delete ''/p/lib/custom_code/actions/foo.dart'',
            Add ''/p/lib/custom_code/actions/foo.dart'']
           (example_manager, example_world)))) ''foo.dart'') = Some ACTION"
proof -
  let ?ops = "[Update ''/p/lib/custom_code/actions/foo.dart'',
               Delete ''/p/lib/custom_code/actions/foo.dart'',
               Add ''/p/lib/custom_code/actions/foo.dart'']"
  let ?before = "\<lparr>old_identifier_name = Str ''oldAction'', new_identifier_name = Str ''oldAction'',
           type = ACTION, is_deleted = False,
           original_checksum = Some ''sha256:newAction'', current_checksum = None\<rparr>"
  let ?after = "\<lparr>old_identifier_name = Str ''oldAction'', new_identifier_name = Str ''oldAction'',
           type = ACTION, is_deleted = True,
           original_checksum = Some ''sha256:newAction'',
           current_checksum = Some ''sha256:newAction''\<rparr>"
  have s: "same_record example_env ''foo.dart'' ?ops (example_manager, example_world)"
    by (simp add: ex_defs)
  have b: "map_of (fileMap example_manager) ''foo.dart'' = Some ?before"
    by (simp add: example_manager_def)
  have a: "map_of (fileMap (fst (run example_env ?ops (example_manager, example_world)))) ''foo.dart''
             = Some ?after"
    by (simp add: ex_defs)
  show ?thesis
    using category_fixed_at_creation [where env = example_env and key = "''foo.dart''"
            and operations = ?ops and um = example_manager and w = example_world
            and fileInfo = ?before and fileInfo' = ?after] s b a
    by simp
qed

end
